theory Spec2Isabelle
  imports Complex_Main "HOL-Library.AList" "HOL-Library.Sublist"
begin

section \<open>Python values and primitives used by the plugin\<close>

text \<open>
  A Python string is modelled by a HOL \<open>string\<close>, the list of the bytes of its UTF-8
  encoding. The plugin concatenates strings, compares them, tests them for emptiness,
  replaces ASCII placeholders and searches for the two ASCII braces; on well-formed text
  each of these gives the same result on the encoding as on the code points.
\<close>

text \<open>
  Values decoded by \<^verbatim>\<open>json.loads\<close>: \<^verbatim>\<open>None\<close>, booleans, integers, strings, lists and
  dictionaries with string keys (in insertion order). Floating-point numbers are left out
  of the model of decoded values.
\<close>

datatype pyval =
    PNone
  | PBool bool
  | PInt int
  | PStr string
  | PList "pyval list"
  | PDict "(string \<times> pyval) list"

text \<open>Python truthiness, as \<^verbatim>\<open>not x\<close> and \<^verbatim>\<open>if x\<close> read a value.\<close>

fun truthy :: "pyval \<Rightarrow> bool" where
  "truthy PNone = False"
| "truthy (PBool b) = b"
| "truthy (PInt i) = (i \<noteq> 0)"
| "truthy (PStr s) = (s \<noteq> [])"
| "truthy (PList vs) = (vs \<noteq> [])"
| "truthy (PDict kvs) = (kvs \<noteq> [])"

text \<open>\<^verbatim>\<open>d.get(key, default)\<close> on a decoded dictionary.\<close>

definition dict_get :: "(string \<times> pyval) list \<Rightarrow> string \<Rightarrow> pyval \<Rightarrow> pyval" where
  "dict_get d k dflt = (case map_of d k of None \<Rightarrow> dflt | Some v \<Rightarrow> v)"

text \<open>\<^verbatim>\<open>a or b\<close> on strings: the first operand unless it is empty.\<close>

definition py_or :: "string \<Rightarrow> string \<Rightarrow> string" where
  "py_or a b = (if a \<noteq> [] then a else b)"

text \<open>
  Slices \<^verbatim>\<open>xs[i:]\<close> and \<^verbatim>\<open>xs[:j]\<close> for an integer bound: a negative bound counts from
  the end and both are clamped to the list.
\<close>

definition slice_from :: "int \<Rightarrow> 'a list \<Rightarrow> 'a list" where
  "slice_from i xs =
     (if i < 0 then drop (nat (int (length xs) + i)) xs else drop (nat i) xs)"

definition slice_to :: "int \<Rightarrow> 'a list \<Rightarrow> 'a list" where
  "slice_to j xs =
     (if j < 0 then take (nat (int (length xs) + j)) xs else take (nat j) xs)"

text \<open>\<^verbatim>\<open>sep.join(parts)\<close>.\<close>

fun join :: "string \<Rightarrow> string list \<Rightarrow> string" where
  "join sep [] = []"
| "join sep [x] = x"
| "join sep (x # y # ys) = x @ sep @ join sep (y # ys)"

text \<open>
  \<^verbatim>\<open>s.replace(old, new)\<close>: every non-overlapping occurrence of \<open>old\<close>, left to right.
  The plugin only calls it with its four fixed, non-empty placeholders; for an empty
  \<open>old\<close> this function returns the string as it is.
\<close>

function replace :: "string \<Rightarrow> string \<Rightarrow> string \<Rightarrow> string" where
  "replace old new [] = []"
| "replace old new (c # cs) =
     (if old \<noteq> [] \<and> prefix old (c # cs)
      then new @ replace old new (drop (length old) (c # cs))
      else c # replace old new cs)"
  by pat_completeness auto
termination
  by (relation "measure (\<lambda>(old, new, s). length s)") auto

text \<open>
  \<^verbatim>\<open>re.search(r"\{.*\}", text, re.DOTALL)\<close>: the leftmost position where the pattern
  matches is tried first, and at that position the dot-star (which, under DOTALL, takes
  every character, newlines too) is greedy, so the match runs to the last closing brace
  after it. \<open>greedy_to_brace\<close> is the longest prefix of the rest that ends in a closing
  brace.
\<close>

fun greedy_to_brace :: "string \<Rightarrow> string option" where
  "greedy_to_brace [] = None"
| "greedy_to_brace (c # cs) =
     (case greedy_to_brace cs of
        Some m \<Rightarrow> Some (c # m)
      | None \<Rightarrow> if c = CHR ''}'' then Some [c] else None)"

fun re_search :: "string \<Rightarrow> string option" where
  "re_search [] = None"
| "re_search (c # cs) =
     (if c = CHR ''{''
      then (case greedy_to_brace cs of
              Some m \<Rightarrow> Some (c # m)
            | None \<Rightarrow> re_search cs)
      else re_search cs)"

section \<open>Data model\<close>

text \<open>
  A history entry. The user entry of \<^verbatim>\<open>interest_analyzer\<close> carries the keys
  \<^verbatim>\<open>role, sender_id, sender_name, content\<close>; the assistant entry of
  \<^verbatim>\<open>save_llm_reply_to_history\<close> carries \<^verbatim>\<open>role, content\<close> and, optionally,
  \<^verbatim>\<open>state = {"interest": .., "feeling": ..}\<close>.
\<close>

datatype turn =
    User (sender_id_of: string) (sender_name_of: string) (content_of: string)
  | Assistant (content_of: string) (state_of: "(pyval \<times> pyval) option")

text \<open>
  \<^verbatim>\<open>history_cache: Dict[str, list]\<close>, a dictionary in insertion order from session id to
  the session's log.
\<close>

type_synonym history = "(string \<times> turn list) list"

text \<open>
  What a handler does to the store and the classifier, in the order it does it. The lock
  is \<^verbatim>\<open>self.history_lock\<close>.
\<close>

datatype action =
    Acquire
  | Release
  | CacheContains string
  | CacheRead string
  | CacheAppend string
  | CacheDelete string
  | CacheTrim
  | CacheAssign
  | FileRead
  | FileWrite
  | TextChat string

text \<open>
  The plugin's state: the in-memory cache, the durable file \<^verbatim>\<open>data/persona_interest_history.json\<close>
  (\<open>None\<close> when it does not exist) and the actions performed so far.
\<close>

record store =
  history_cache :: history
  history_file :: "string option"
  trace :: "action list"

record config =
  whitelist :: "string list option"
  analysis_provider_id :: "string option"
  analysis_system_prompt :: "string option"
  history_max_length :: "int option"
  random_reply_chance :: "real option"
  record_emotion_in_history :: "bool option"

record event =
  group_id :: string
  sender_id :: string
  sender_name :: string
  platform_name :: string
  unified_msg_origin :: string
  is_at_or_wake_command :: bool
  stopped :: bool
  pic_emotion_data :: "(pyval \<times> pyval) option"

record req =
  prompt :: "string option"
  system_prompt :: string

text \<open>How an attempt to open and write the history file ends.\<close>

datatype write_outcome = WriteOk | OpenFails | WriteFails string

text \<open>
  Everything outside the plugin that one handler call depends on: the host framework,
  the classifier, the JSON library, the random number generator and the file system.
  \<^item> \<open>persona_prompt\<close>: what \<^verbatim>\<open>_get_current_persona_prompt(event)\<close> returns (empty when the
    lookup yields nothing);
  \<^item> \<open>get_provider_by_id\<close>: the provider for an id, if any, as its \<^verbatim>\<open>text_chat\<close>: the
    completion text for a prompt, \<open>None\<close> when the call raises or returns no text;
  \<^item> \<open>json_loads\<close>: \<^verbatim>\<open>json.loads\<close> on the classifier's text, \<open>None\<close> when it raises;
  \<^item> \<open>py_str\<close>: how an f-string renders a decoded value;
  \<^item> \<open>random_random\<close>: the value \<^verbatim>\<open>random.random()\<close> returns, in \<open>[0, 1)\<close>;
  \<^item> \<open>json_dumps\<close>: \<^verbatim>\<open>json.dumps(cache, indent=2, ensure_ascii=False)\<close>;
  \<^item> \<open>json_loads_history\<close>: \<^verbatim>\<open>json.loads\<close> on the history file's text, read as a mapping
    from session ids to logs, \<open>None\<close> when it raises;
  \<^item> \<open>write_result\<close> and \<open>read_ok\<close>: whether opening, writing and reading the file succeed.
\<close>

record env =
  persona_prompt :: string
  get_provider_by_id :: "string \<Rightarrow> (string \<Rightarrow> string option) option"
  json_loads :: "string \<Rightarrow> pyval option"
  py_str :: "pyval \<Rightarrow> string"
  random_random :: real
  json_dumps :: "history \<Rightarrow> string"
  json_loads_history :: "string \<Rightarrow> history option"
  write_result :: write_outcome
  read_ok :: bool

section \<open>HistoryStore: the cache and its durable copy\<close>

definition log_action :: "action \<Rightarrow> store \<Rightarrow> store" where
  "log_action a s = s\<lparr>trace := trace s @ [a]\<rparr>"

text \<open>\<^verbatim>\<open>self.history_cache.get(session_id, [])\<close>.\<close>

definition cache_get :: "history \<Rightarrow> string \<Rightarrow> turn list" where
  "cache_get h sid = (case map_of h sid of None \<Rightarrow> [] | Some l \<Rightarrow> l)"

text \<open>\<^verbatim>\<open>self.history_cache.setdefault(session_id, []).append(entry)\<close>.\<close>

definition cache_append :: "string \<Rightarrow> turn \<Rightarrow> history \<Rightarrow> history" where
  "cache_append sid t h = AList.update sid (cache_get h sid @ [t]) h"

text \<open>The plugin as \<^verbatim>\<open>__init__\<close> leaves it, before the scheduled \<^verbatim>\<open>_load_history\<close> runs.\<close>

definition init_store :: "string option \<Rightarrow> store" where
  "init_store file = \<lparr>history_cache = [], history_file = file, trace = []\<rparr>"

text \<open>
  \<^verbatim>\<open>_load_history\<close>: under the lock, if the file exists, read and decode it and make the
  result the cache; any exception is logged and leaves the cache as it was.
\<close>

definition load_history :: "env \<Rightarrow> store \<Rightarrow> store" where
  "load_history env s =
     (let s1 = log_action Acquire s;
          s2 = (case history_file s1 of
                  None \<Rightarrow> s1
                | Some text \<Rightarrow>
                    (let s1' = log_action FileRead s1 in
                     if \<not> read_ok env then s1'
                     else (case json_loads_history env text of
                             None \<Rightarrow> s1'
                           | Some h \<Rightarrow> log_action CacheAssign (s1'\<lparr>history_cache := h\<rparr>))))
      in log_action Release s2)"

definition max_len :: "config \<Rightarrow> int" where
  "max_len cfg = (case history_max_length cfg of None \<Rightarrow> 20 | Some n \<Rightarrow> n)"

text \<open>The loop of \<^verbatim>\<open>_save_history\<close>: every session's log becomes \<^verbatim>\<open>log[-max_len:]\<close>.\<close>

definition trim_all :: "int \<Rightarrow> history \<Rightarrow> history" where
  "trim_all n h = map (\<lambda>(sid, l). (sid, slice_from (- n) l)) h"

text \<open>
  \<^verbatim>\<open>_save_history\<close>: under the lock, trim every log, then open the file for writing and
  write the serialised cache. An exception is logged: when opening fails the file is as
  it was, when writing fails it holds whatever was written.
\<close>

definition save_history :: "env \<Rightarrow> config \<Rightarrow> store \<Rightarrow> store" where
  "save_history env cfg s =
     (let s1 = log_action Acquire s;
          s2 = log_action CacheTrim
                 (s1\<lparr>history_cache := trim_all (max_len cfg) (history_cache s1)\<rparr>);
          s3 = log_action FileWrite
                 (case write_result env of
                    WriteOk \<Rightarrow> s2\<lparr>history_file := Some (json_dumps env (history_cache s2))\<rparr>
                  | OpenFails \<Rightarrow> s2
                  | WriteFails partial \<Rightarrow> s2\<lparr>history_file := Some partial\<rparr>)
      in log_action Release s3)"

section \<open>InterestAnalyzer\<close>

definition subject_id :: "event \<Rightarrow> string" where
  "subject_id ev = py_or (group_id ev) (sender_id ev)"

definition whitelist_of :: "config \<Rightarrow> string list" where
  "whitelist_of cfg = (case whitelist cfg of None \<Rightarrow> [] | Some w \<Rightarrow> w)"

definition placeholder :: string where
  "placeholder = ''User sent an empty or non-text message.''"

text \<open>\<^verbatim>\<open>req.prompt or "User sent an empty or non-text message."\<close>.\<close>

definition current_message :: "req \<Rightarrow> string" where
  "current_message rq =
     (case prompt rq of None \<Rightarrow> placeholder | Some p \<Rightarrow> py_or p placeholder)"

definition user_history_entry :: "event \<Rightarrow> req \<Rightarrow> turn" where
  "user_history_entry ev rq =
     User (sender_id ev) (sender_name ev)
       (if is_at_or_wake_command ev
        then ''[Direct Mention] '' @ current_message rq
        else current_message rq)"

text \<open>Line 101: the user's entry goes to the end of the session's log.\<close>

definition append_user_turn :: "event \<Rightarrow> req \<Rightarrow> store \<Rightarrow> store" where
  "append_user_turn ev rq s =
     log_action (CacheAppend (unified_msg_origin ev))
       (s\<lparr>history_cache :=
            cache_append (unified_msg_origin ev) (user_history_entry ev rq) (history_cache s)\<rparr>)"

text \<open>Line 103: \<^verbatim>\<open>self.history_cache[session_id][:-1]\<close>.\<close>

definition history_for_analysis :: "store \<Rightarrow> string \<Rightarrow> turn list" where
  "history_for_analysis s sid = slice_to (- 1) (cache_get (history_cache s) sid)"

definition format_history_entry :: "turn \<Rightarrow> string" where
  "format_history_entry msg =
     (case msg of
        User sid name content \<Rightarrow> ''user ('' @ name @ ''/'' @ sid @ ''): '' @ content
      | Assistant content st \<Rightarrow> ''assistant: '' @ content)"

definition formatted_history :: "turn list \<Rightarrow> string" where
  "formatted_history hist =
     py_or (join [CHR 0x0A] (map format_history_entry hist))
       ''No previous conversation history.''"

definition awakening_context_str :: "event \<Rightarrow> string" where
  "awakening_context_str ev =
     (if is_at_or_wake_command ev
      then ''IMPORTANT CONTEXT: The user has directly awakened you...''
      else [])"

definition persona_description :: "env \<Rightarrow> req \<Rightarrow> string" where
  "persona_description env rq = py_or (persona_prompt env) (system_prompt rq)"

text \<open>Lines 120 to 123: the four substitutions into the configured template, in order.\<close>

definition render_prompt :: "string \<Rightarrow> string \<Rightarrow> string \<Rightarrow> string \<Rightarrow> string \<Rightarrow> string" where
  "render_prompt template awakening persona hist cur =
     replace ''{current_message}'' cur
       (replace ''{history}'' hist
          (replace ''{persona}'' persona
             (replace ''{awakening_context}'' awakening template)))"

text \<open>
  The prompt sent to the classifier, from the store as it is after the append. A missing
  template makes line 120 raise, which the handler's \<^verbatim>\<open>except\<close> catches: \<open>None\<close>.
\<close>

definition analysis_prompt :: "env \<Rightarrow> config \<Rightarrow> event \<Rightarrow> req \<Rightarrow> store \<Rightarrow> string option" where
  "analysis_prompt env cfg ev rq s =
     (case analysis_system_prompt cfg of
        None \<Rightarrow> None
      | Some template \<Rightarrow>
          Some (render_prompt template (awakening_context_str ev) (persona_description env rq)
                  (formatted_history (history_for_analysis s (unified_msg_origin ev)))
                  (format_history_entry (user_history_entry ev rq))))"

text \<open>
  Lines 128 to 132 and the \<^verbatim>\<open>except\<close> of line 160: the braces are searched, the match is
  decoded, and the result is used as a dictionary. No match returns from the handler; a
  decoding error, or a decoded value that is no dictionary, raises into the \<^verbatim>\<open>except\<close>,
  which logs it. Either way there is no verdict: \<open>None\<close>.
\<close>

definition parse_verdict :: "env \<Rightarrow> string \<Rightarrow> (string \<times> pyval) list option" where
  "parse_verdict env response_text =
     (case re_search response_text of
        None \<Rightarrow> None
      | Some json_str \<Rightarrow>
          (case json_loads env json_str of
             Some (PDict analysis_result) \<Rightarrow> Some analysis_result
           | _ \<Rightarrow> None))"

definition reply_chance :: "config \<Rightarrow> real" where
  "reply_chance cfg = (case random_reply_chance cfg of None \<Rightarrow> 1 | Some c \<Rightarrow> c)"

text \<open>
  Line 155 (line 154 is overwritten by it): the user's message first, then the note.
  An f-string renders a missing prompt as \<^verbatim>\<open>None\<close>.
\<close>

definition injection_wrapper :: "env \<Rightarrow> req \<Rightarrow> pyval \<Rightarrow> pyval \<Rightarrow> string" where
  "injection_wrapper env rq interest feeling =
     ''User's message is: '' @ [CHR 0x22]
       @ (case prompt rq of None \<Rightarrow> ''None'' | Some p \<Rightarrow> p)
       @ [CHR 0x22, CHR 0x0A, CHR 0x0A]
       @ ''[[System Note: Your current state is - Interest: ''
       @ [CHR 0x27] @ py_str env interest @ [CHR 0x27]
       @ '', Feeling: '' @ [CHR 0x27] @ py_str env feeling @ [CHR 0x27]
       @ ''. You MUST respond according to this state.]]''"

text \<open>Lines 134 to 158: what the handler does with a verdict.\<close>

definition apply_verdict ::
  "env \<Rightarrow> config \<Rightarrow> (string \<times> pyval) list \<Rightarrow> event \<Rightarrow> req \<Rightarrow> store \<Rightarrow> store \<times> event \<times> req" where
  "apply_verdict env cfg analysis_result ev rq s =
     (if \<not> truthy (dict_get analysis_result ''should_reply'' (PBool True))
      then (save_history env cfg s, ev\<lparr>stopped := True\<rparr>, rq)
      else if random_random env > reply_chance cfg
      then (save_history env cfg s, ev\<lparr>stopped := True\<rparr>, rq)
      else
        (let interest = dict_get analysis_result ''interest'' (PStr ''normal'');
             feeling = dict_get analysis_result ''feeling'' (PStr ''neutral'')
         in (s, ev\<lparr>pic_emotion_data := Some (interest, feeling)\<rparr>,
             rq\<lparr>prompt := Some (injection_wrapper env rq interest feeling)\<rparr>)))"

text \<open>
  Lines 101 to 161, for a message that passed the three gates: \<open>text_chat\<close> is the
  resolved provider's call.
\<close>

definition analyze ::
  "env \<Rightarrow> config \<Rightarrow> (string \<Rightarrow> string option) \<Rightarrow> event \<Rightarrow> req \<Rightarrow> store \<Rightarrow> store \<times> event \<times> req" where
  "analyze env cfg text_chat ev rq s =
     (let s1 = log_action (CacheRead (unified_msg_origin ev)) (append_user_turn ev rq s) in
      case analysis_prompt env cfg ev rq s1 of
        None \<Rightarrow> (s1, ev, rq)
      | Some p \<Rightarrow>
          (let s2 = log_action (TextChat p) s1 in
           case text_chat p of
             None \<Rightarrow> (s2, ev, rq)
           | Some response_text \<Rightarrow>
               (case parse_verdict env response_text of
                  None \<Rightarrow> (s2, ev, rq)
                | Some analysis_result \<Rightarrow> apply_verdict env cfg analysis_result ev rq s2)))"

text \<open>
  The three gates of lines 78 to 88; \<open>None\<close> when the handler returns at one of them,
  otherwise the provider's \<^verbatim>\<open>text_chat\<close>.
\<close>

definition gates :: "env \<Rightarrow> config \<Rightarrow> event \<Rightarrow> (string \<Rightarrow> string option) option" where
  "gates env cfg ev =
     (if subject_id ev \<notin> set (whitelist_of cfg) then None
      else if platform_name ev \<noteq> ''aiocqhttp'' then None
      else (case analysis_provider_id cfg of
              None \<Rightarrow> None
            | Some pid \<Rightarrow> if pid = [] then None else get_provider_by_id env pid))"

text \<open>\<^verbatim>\<open>interest_analyzer\<close>, the handler of an outbound LLM request.\<close>

definition interest_analyzer ::
  "env \<Rightarrow> config \<Rightarrow> event \<Rightarrow> req \<Rightarrow> store \<Rightarrow> store \<times> event \<times> req" where
  "interest_analyzer env cfg ev rq s =
     (case gates env cfg ev of
        None \<Rightarrow> (s, ev, rq)
      | Some text_chat \<Rightarrow> analyze env cfg text_chat ev rq s)"

section \<open>ReplyRecorder\<close>

text \<open>\<^verbatim>\<open>save_llm_reply_to_history\<close>; \<open>completion_text\<close> is the reply's text.\<close>

definition save_llm_reply_to_history :: "env \<Rightarrow> config \<Rightarrow> event \<Rightarrow> string \<Rightarrow> store \<Rightarrow> store" where
  "save_llm_reply_to_history env cfg ev completion_text s =
     (if subject_id ev \<notin> set (whitelist_of cfg) then s
      else if completion_text = [] then s
      else
        (let bot_history_entry =
               Assistant completion_text
                 (if (case record_emotion_in_history cfg of None \<Rightarrow> False | Some b \<Rightarrow> b)
                  then pic_emotion_data ev else None);
             s1 = log_action (CacheAppend (unified_msg_origin ev))
                    (s\<lparr>history_cache :=
                         cache_append (unified_msg_origin ev) bot_history_entry (history_cache s)\<rparr>)
         in save_history env cfg s1))"

section \<open>AdminView\<close>

text \<open>
  The four messages the commands answer with: the two fixed texts of \<^verbatim>\<open>view\<close> and
  \<^verbatim>\<open>clear\<close> for a session without a log, the confirmation of \<^verbatim>\<open>clear\<close>, and the rendered log.
\<close>

datatype plain_result =
    NoHistoryToView
  | HistoryView string
  | HistoryCleared
  | NothingToClear

definition format_view_entry :: "env \<Rightarrow> turn \<Rightarrow> string" where
  "format_view_entry env msg =
     (case msg of
        User sid name content \<Rightarrow> ''[user] ('' @ name @ ''/'' @ sid @ ''): '' @ content
      | Assistant content st \<Rightarrow>
          ''[assistant]''
          @ (case st of
               None \<Rightarrow> []
             | Some (interest, feeling) \<Rightarrow>
                 '' (State: '' @ py_str env interest @ '', '' @ py_str env feeling @ '')'')
          @ '': '' @ content)"

definition view_history :: "env \<Rightarrow> event \<Rightarrow> store \<Rightarrow> plain_result \<times> store" where
  "view_history env ev s =
     (let s1 = log_action (CacheRead (unified_msg_origin ev)) s;
          hist = cache_get (history_cache s1) (unified_msg_origin ev)
      in if hist = [] then (NoHistoryToView, s1)
         else (HistoryView (''--- Chat History ---'' @ [CHR 0x0A]
                 @ join [CHR 0x0A] (map (format_view_entry env) hist)), s1))"

definition clear_history :: "env \<Rightarrow> config \<Rightarrow> event \<Rightarrow> store \<Rightarrow> plain_result \<times> store" where
  "clear_history env cfg ev s =
     (let s1 = log_action (CacheContains (unified_msg_origin ev)) s in
      if unified_msg_origin ev \<in> fst ` set (history_cache s1)
      then (HistoryCleared,
            save_history env cfg
              (log_action (CacheDelete (unified_msg_origin ev))
                 (s1\<lparr>history_cache := AList.delete (unified_msg_origin ev) (history_cache s1)\<rparr>)))
      else (NothingToClear, s1))"

definition terminate :: "env \<Rightarrow> config \<Rightarrow> store \<Rightarrow> store" where
  "terminate env cfg s = save_history env cfg s"

section \<open>Lock discipline\<close>

text \<open>
  Whether every access to the cache or the file in a sequence of actions happens while
  the lock is held; \<open>held\<close> says whether it is held at the start. Calling the classifier
  is no access to the store.
\<close>

fun locked :: "bool \<Rightarrow> action list \<Rightarrow> bool" where
  "locked held [] = True"
| "locked held (Acquire # as) = locked True as"
| "locked held (Release # as) = locked False as"
| "locked held (TextChat p # as) = locked held as"
| "locked held (a # as) = (held \<and> locked held as)"

text \<open>
  The accesses to the cache and the file that a sequence of actions makes while the lock
  is not held.
\<close>

fun unlocked_accesses :: "bool \<Rightarrow> action list \<Rightarrow> action list" where
  "unlocked_accesses held [] = []"
| "unlocked_accesses held (Acquire # as) = unlocked_accesses True as"
| "unlocked_accesses held (Release # as) = unlocked_accesses False as"
| "unlocked_accesses held (TextChat p # as) = unlocked_accesses held as"
| "unlocked_accesses held (a # as) =
     (if held then unlocked_accesses held as else a # unlocked_accesses held as)"

section \<open>The JSON document of the cache\<close>

text \<open>
  What \<^verbatim>\<open>json.dumps(cache, indent=2, ensure_ascii=False)\<close> writes for a cache, following
  the encoder of the standard library: dictionaries and lists over several lines
  with two more spaces per level (\<^verbatim>\<open>{}\<close> and \<^verbatim>\<open>[]\<close> when empty), the separators \<^verbatim>\<open>,\<close> and
  \<^verbatim>\<open>: \<close>, and strings between double quotes with the quote, the backslash and the
  control characters escaped and every other character written as it is.
\<close>

definition hex_digit :: "nat \<Rightarrow> char" where
  "hex_digit n = ''0123456789abcdef'' ! n"

definition escape_char :: "char \<Rightarrow> string" where
  "escape_char c =
     (if c = CHR 0x22 then [CHR 0x5C, CHR 0x22]
      else if c = CHR 0x5C then [CHR 0x5C, CHR 0x5C]
      else if c = CHR 0x0A then [CHR 0x5C, CHR ''n'']
      else if c = CHR 0x0D then [CHR 0x5C, CHR ''r'']
      else if c = CHR 0x09 then [CHR 0x5C, CHR ''t'']
      else if c = CHR 0x08 then [CHR 0x5C, CHR ''b'']
      else if c = CHR 0x0C then [CHR 0x5C, CHR ''f'']
      else if (of_char c :: nat) < 0x20
      then [CHR 0x5C, CHR ''u'', CHR ''0'', CHR ''0'',
            hex_digit (of_char c div 16), hex_digit (of_char c mod 16)]
      else [c])"

definition encode_basestring :: "string \<Rightarrow> string" where
  "encode_basestring s = CHR 0x22 # concat (map escape_char s) @ [CHR 0x22]"

definition digit_char :: "nat \<Rightarrow> char" where
  "digit_char n = ''0123456789'' ! n"

fun digits :: "nat \<Rightarrow> string" where
  "digits n = (if n < 10 then [digit_char n] else digits (n div 10) @ [digit_char (n mod 10)])"

declare digits.simps [simp del]

definition show_int :: "int \<Rightarrow> string" where
  "show_int i = (if i < 0 then CHR ''-'' # digits (nat (- i)) else digits (nat i))"

definition newline_indent :: "nat \<Rightarrow> string" where
  "newline_indent lvl = CHR 0x0A # replicate (2 * lvl) CHR '' ''"

fun dumps_val :: "nat \<Rightarrow> pyval \<Rightarrow> string" where
  "dumps_val lvl PNone = ''null''"
| "dumps_val lvl (PBool b) = (if b then ''true'' else ''false'')"
| "dumps_val lvl (PInt i) = show_int i"
| "dumps_val lvl (PStr s) = encode_basestring s"
| "dumps_val lvl (PList vs) =
     (if vs = [] then ''[]''
      else ''['' @ newline_indent (Suc lvl)
           @ join ('','' @ newline_indent (Suc lvl)) (map (dumps_val (Suc lvl)) vs)
           @ newline_indent lvl @ '']'')"
| "dumps_val lvl (PDict kvs) =
     (if kvs = [] then ''{}''
      else ''{'' @ newline_indent (Suc lvl)
           @ join ('','' @ newline_indent (Suc lvl))
               (map (\<lambda>kv. encode_basestring (fst kv) @ '': '' @ dumps_val (Suc lvl) (snd kv)) kvs)
           @ newline_indent lvl @ ''}'')"

definition turn_to_py :: "turn \<Rightarrow> pyval" where
  "turn_to_py t =
     (case t of
        User sid name content \<Rightarrow>
          PDict [(''role'', PStr ''user''), (''sender_id'', PStr sid),
                 (''sender_name'', PStr name), (''content'', PStr content)]
      | Assistant content None \<Rightarrow>
          PDict [(''role'', PStr ''assistant''), (''content'', PStr content)]
      | Assistant content (Some (interest, feeling)) \<Rightarrow>
          PDict [(''role'', PStr ''assistant''), (''content'', PStr content),
                 (''state'', PDict [(''interest'', interest), (''feeling'', feeling)])])"

definition history_to_py :: "history \<Rightarrow> pyval" where
  "history_to_py h = PDict (map (\<lambda>(sid, l). (sid, PList (map turn_to_py l))) h)"

definition py_json_dumps :: "history \<Rightarrow> string" where
  "py_json_dumps h = dumps_val 0 (history_to_py h)"

subsection \<open>Reading the document back\<close>

text \<open>
  What \<^verbatim>\<open>json.loads\<close> reads, following the decoder of the standard library
  (\<^verbatim>\<open>json.decoder\<close> and \<^verbatim>\<open>json.scanner\<close>):
  \<^item> whitespace is the space, the tab, the line feed and the carriage return;
  \<^item> a string ends at the first unescaped double quote; after a backslash come the quote,
    the backslash, the slash, one of \<^verbatim>\<open>b f n r t\<close>, or \<^verbatim>\<open>u\<close> with four hexadecimal digits of
    either case, a high surrogate followed by an escaped low surrogate being one code
    point, written here as the bytes of its UTF-8 encoding; a character below \<^verbatim>\<open>0x20\<close>
    inside a string is refused;
  \<^item> an integer is \<^verbatim>\<open>-?(0|[1-9][0-9]*)\<close>;
  \<^item> a dictionary keeps, for a repeated key, the position of its first and the value of its
    last occurrence;
  \<^item> a text that starts with a byte order mark is refused, and only whitespace may follow
    the value.

  Outside the model of values, and decoded as \<open>None\<close> here: a number with a fraction or an
  exponent, \<^verbatim>\<open>NaN\<close> and \<^verbatim>\<open>Infinity\<close> (floating-point numbers), and an escaped surrogate that
  is not part of a pair (Python reads it into a string that has no UTF-8 encoding). The
  decoder descends with fuel, one unit per value and per element; \<open>py_loads\<close> gives it one
  more than the length of the text.
\<close>

definition is_ws :: "char \<Rightarrow> bool" where
  "is_ws c \<longleftrightarrow> c = CHR '' '' \<or> c = CHR 0x09 \<or> c = CHR 0x0A \<or> c = CHR 0x0D"

definition skip_ws :: "string \<Rightarrow> string" where
  "skip_ws s = dropWhile is_ws s"

definition starts_with :: "char \<Rightarrow> string \<Rightarrow> bool" where
  "starts_with c s \<longleftrightarrow> s \<noteq> [] \<and> hd s = c"

definition is_digit :: "char \<Rightarrow> bool" where
  "is_digit c \<longleftrightarrow> (48::nat) \<le> of_char c \<and> (of_char c :: nat) \<le> 57"

definition digit_val :: "char \<Rightarrow> nat" where
  "digit_val c = of_char c - 48"

definition hex_val :: "char \<Rightarrow> nat option" where
  "hex_val c =
     (let n = (of_char c :: nat) in
      if 48 \<le> n \<and> n \<le> 57 then Some (n - 48)
      else if 97 \<le> n \<and> n \<le> 102 then Some (n - 87)
      else if 65 \<le> n \<and> n \<le> 70 then Some (n - 55)
      else None)"

definition hex4 :: "string \<Rightarrow> (nat \<times> string) option" where
  "hex4 s =
     (case s of
        a # b # c # d # r \<Rightarrow>
          (case (hex_val a, hex_val b, hex_val c, hex_val d) of
             (Some x, Some y, Some z, Some w) \<Rightarrow> Some (((x * 16 + y) * 16 + z) * 16 + w, r)
           | _ \<Rightarrow> None)
      | _ \<Rightarrow> None)"

definition utf8 :: "nat \<Rightarrow> string" where
  "utf8 n =
     (if n < 0x80 then [char_of n]
      else if n < 0x800 then [char_of (0xC0 + n div 64), char_of (0x80 + n mod 64)]
      else if n < 0x10000
      then [char_of (0xE0 + n div 4096), char_of (0x80 + n div 64 mod 64), char_of (0x80 + n mod 64)]
      else [char_of (0xF0 + n div 262144), char_of (0x80 + n div 4096 mod 64),
            char_of (0x80 + n div 64 mod 64), char_of (0x80 + n mod 64)])"

definition decode_unicode :: "string \<Rightarrow> (string \<times> string) option" where
  "decode_unicode s =
     (case hex4 s of
        None \<Rightarrow> None
      | Some (u, r) \<Rightarrow>
          if 0xD800 \<le> u \<and> u \<le> 0xDBFF
          then (if starts_with (CHR 0x5C) r \<and> starts_with CHR ''u'' (tl r)
                then (case hex4 (tl (tl r)) of
                        None \<Rightarrow> None
                      | Some (u2, r2) \<Rightarrow>
                          if 0xDC00 \<le> u2 \<and> u2 \<le> 0xDFFF
                          then Some (utf8 (0x10000 + (u - 0xD800) * 1024 + (u2 - 0xDC00)), r2)
                          else None)
                else None)
          else if 0xDC00 \<le> u \<and> u \<le> 0xDFFF then None
          else Some (utf8 u, r))"

definition unescape :: "char \<Rightarrow> char option" where
  "unescape e =
     (if e = CHR 0x22 then Some (CHR 0x22)
      else if e = CHR 0x5C then Some (CHR 0x5C)
      else if e = CHR ''/'' then Some CHR ''/''
      else if e = CHR ''b'' then Some (CHR 0x08)
      else if e = CHR ''f'' then Some (CHR 0x0C)
      else if e = CHR ''n'' then Some (CHR 0x0A)
      else if e = CHR ''r'' then Some (CHR 0x0D)
      else if e = CHR ''t'' then Some (CHR 0x09)
      else None)"

function scanstring :: "string \<Rightarrow> (string \<times> string) option" where
  "scanstring [] = None"
| "scanstring (c # cs) =
     (if c = CHR 0x22 then Some ([], cs)
      else if c = CHR 0x5C
      then (case cs of
              [] \<Rightarrow> None
            | e # r \<Rightarrow>
                if e = CHR ''u''
                then (case decode_unicode r of
                        None \<Rightarrow> None
                      | Some (bytes, r') \<Rightarrow> map_option (apfst ((@) bytes)) (scanstring r'))
                else (case unescape e of
                        None \<Rightarrow> None
                      | Some ch \<Rightarrow> map_option (apfst ((#) ch)) (scanstring r)))
      else if (of_char c :: nat) < 0x20 then None
      else map_option (apfst ((#) c)) (scanstring cs))"
  by pat_completeness auto
termination
proof (relation "measure length")
  fix c :: char and cs x21 x22 x2 x y
  assume cs: "cs = x21 # x22" and "decode_unicode x22 = Some x2" and "(x, y) = x2"
  then have d: "decode_unicode x22 = Some (x, y)" by simp
  have hl: "length r < length t" if "hex4 t = Some (u, r)" for t u r
    using that by (auto simp: hex4_def split: list.splits option.splits)
  from d obtain u r1 where h: "hex4 x22 = Some (u, r1)"
    by (auto simp: decode_unicode_def split: option.splits)
  then have l1: "length r1 < length x22" by (rule hl)
  have "length y < length x22"
  proof (cases "y = r1")
    case True
    with l1 show ?thesis by simp
  next
    case False
    with d h obtain u2 where "hex4 (tl (tl r1)) = Some (u2, y)"
      by (auto simp: decode_unicode_def split: option.splits if_splits)
    then have "length y < length (tl (tl r1))" by (rule hl)
    with l1 show ?thesis by simp
  qed
  with cs show "(y, c # cs) \<in> measure length" by simp
qed auto

definition float_tail :: "string \<Rightarrow> bool" where
  "float_tail r \<longleftrightarrow>
     (starts_with CHR ''.'' r \<and> tl r \<noteq> [] \<and> is_digit (hd (tl r)))
     \<or> ((starts_with CHR ''e'' r \<or> starts_with CHR ''E'' r)
        \<and> tl r \<noteq> []
        \<and> (is_digit (hd (tl r))
           \<or> ((hd (tl r) = CHR ''+'' \<or> hd (tl r) = CHR ''-'')
              \<and> tl (tl r) \<noteq> [] \<and> is_digit (hd (tl (tl r))))))"

definition digits_val :: "string \<Rightarrow> nat" where
  "digits_val ds = foldl (\<lambda>a c. 10 * a + digit_val c) 0 ds"

definition scan_number :: "string \<Rightarrow> (pyval \<times> string) option" where
  "scan_number s =
     (let neg = starts_with CHR ''-'' s;
          s1 = (if neg then tl s else s)
      in if s1 = [] \<or> \<not> is_digit (hd s1) then None
         else
           (let ds = (if hd s1 = CHR ''0'' then [hd s1] else takeWhile is_digit s1);
                r = drop (length ds) s1
            in if float_tail r then None
               else Some (PInt (if neg then - int (digits_val ds) else int (digits_val ds)), r)))"

definition dict_of_pairs :: "(string \<times> pyval) list \<Rightarrow> (string \<times> pyval) list" where
  "dict_of_pairs pairs = foldl (\<lambda>d kv. AList.update (fst kv) (snd kv) d) [] pairs"

fun parse_value :: "nat \<Rightarrow> string \<Rightarrow> (pyval \<times> string) option"
  and parse_elems :: "nat \<Rightarrow> string \<Rightarrow> (pyval list \<times> string) option"
  and parse_members :: "nat \<Rightarrow> string \<Rightarrow> ((string \<times> pyval) list \<times> string) option" where
  "parse_value 0 s = None"
| "parse_value (Suc f) s =
     (if s = [] then None
      else if hd s = CHR 0x22 then map_option (apfst PStr) (scanstring (tl s))
      else if hd s = CHR ''{''
      then (let r = skip_ws (tl s) in
            if starts_with CHR ''}'' r then Some (PDict [], tl r)
            else map_option (apfst (\<lambda>pairs. PDict (dict_of_pairs pairs))) (parse_members f r))
      else if hd s = CHR ''[''
      then (let r = skip_ws (tl s) in
            if starts_with CHR '']'' r then Some (PList [], tl r)
            else map_option (apfst PList) (parse_elems f r))
      else if hd s = CHR ''n''
      then (if prefix ''null'' s then Some (PNone, drop 4 s) else None)
      else if hd s = CHR ''t''
      then (if prefix ''true'' s then Some (PBool True, drop 4 s) else None)
      else if hd s = CHR ''f''
      then (if prefix ''false'' s then Some (PBool False, drop 5 s) else None)
      else scan_number s)"
| "parse_elems 0 s = None"
| "parse_elems (Suc f) s =
     (case parse_value f s of
        None \<Rightarrow> None
      | Some (v, r) \<Rightarrow>
          (let r1 = skip_ws r in
           if starts_with CHR '','' r1
           then map_option (apfst ((#) v)) (parse_elems f (skip_ws (tl r1)))
           else if starts_with CHR '']'' r1 then Some ([v], tl r1)
           else None))"
| "parse_members 0 s = None"
| "parse_members (Suc f) s =
     (if \<not> starts_with (CHR 0x22) s then None
      else (case scanstring (tl s) of
              None \<Rightarrow> None
            | Some (k, r) \<Rightarrow>
                (let r1 = skip_ws r in
                 if \<not> starts_with CHR '':'' r1 then None
                 else (case parse_value f (skip_ws (tl r1)) of
                         None \<Rightarrow> None
                       | Some (v, r2) \<Rightarrow>
                           (let r3 = skip_ws r2 in
                            if starts_with CHR '','' r3
                            then map_option (apfst ((#) (k, v))) (parse_members f (skip_ws (tl r3)))
                            else if starts_with CHR ''}'' r3 then Some ([(k, v)], tl r3)
                            else None)))))"

definition py_loads :: "string \<Rightarrow> pyval option" where
  "py_loads s =
     (if prefix [CHR 0xEF, CHR 0xBB, CHR 0xBF] s then None
      else (case parse_value (Suc (length s)) (skip_ws s) of
              None \<Rightarrow> None
            | Some (v, r) \<Rightarrow> if skip_ws r = [] then Some v else None))"

text \<open>
  The decoded value read as a cache: a dictionary of lists of entries, an entry being a
  dictionary with the keys of a user entry or of an assistant entry, in the order in which
  the plugin writes them. Any other value is no cache of the model.
\<close>

fun py_to_turn :: "pyval \<Rightarrow> turn option" where
  "py_to_turn (PDict [(k1, PStr role), (k2, PStr a), (k3, PStr b), (k4, PStr c)]) =
     (if k1 = ''role'' \<and> role = ''user'' \<and> k2 = ''sender_id'' \<and> k3 = ''sender_name''
         \<and> k4 = ''content''
      then Some (User a b c) else None)"
| "py_to_turn (PDict [(k1, PStr role), (k2, PStr c)]) =
     (if k1 = ''role'' \<and> role = ''assistant'' \<and> k2 = ''content''
      then Some (Assistant c None) else None)"
| "py_to_turn (PDict [(k1, PStr role), (k2, PStr c), (k3, PDict [(k4, i), (k5, f)])]) =
     (if k1 = ''role'' \<and> role = ''assistant'' \<and> k2 = ''content'' \<and> k3 = ''state''
         \<and> k4 = ''interest'' \<and> k5 = ''feeling''
      then Some (Assistant c (Some (i, f))) else None)"
| "py_to_turn v = None"

definition py_to_log :: "pyval \<Rightarrow> turn list option" where
  "py_to_log v = (case v of PList ts \<Rightarrow> those (map py_to_turn ts) | _ \<Rightarrow> None)"

definition py_to_history :: "pyval \<Rightarrow> history option" where
  "py_to_history v =
     (case v of
        PDict kvs \<Rightarrow> those (map (\<lambda>kv. map_option (Pair (fst kv)) (py_to_log (snd kv))) kvs)
      | _ \<Rightarrow> None)"

definition py_json_loads_history :: "string \<Rightarrow> history option" where
  "py_json_loads_history s = (case py_loads s of None \<Rightarrow> None | Some v \<Rightarrow> py_to_history v)"

subsection \<open>Well-formed values\<close>







section \<open>Example inputs\<close>

text \<open>
  One configuration, one group message and one request, used to evaluate the handlers.
  The example environment writes the cache with the encoder above and reads the history
  file with the decoder above. Its decoder of the classifier's text and its rendering of
  decoded values are tables: on the texts and values of the examples they give what the
  Python functions return there; elsewhere the table of the decoder fails and a value that
  is no string is rendered as the empty text, and no theorem rests on those values.
\<close>

definition ex_config :: config where
  "ex_config =
     \<lparr>whitelist = Some [''group1''], analysis_provider_id = Some ''clf'',
      analysis_system_prompt =
        Some ''{awakening_context}|{persona}|{history}|{current_message}'',
      history_max_length = None, random_reply_chance = None,
      record_emotion_in_history = None\<rparr>"

definition ex_event :: event where
  "ex_event =
     \<lparr>group_id = ''group1'', sender_id = ''42'', sender_name = ''Ann'',
      platform_name = ''aiocqhttp'', unified_msg_origin = ''aiocqhttp:GroupMessage:group1'',
      is_at_or_wake_command = False, stopped = False, pic_emotion_data = None\<rparr>"

definition ex_req :: req where
  "ex_req = \<lparr>prompt = Some ''hello'', system_prompt = ''You are a cat.''\<rparr>"

definition ex_verdict_text :: string where
  "ex_verdict_text = ''{\"should_reply\": true, \"interest\": \"high\", \"feeling\": \"curious\"}''"

definition ex_decline_json :: string where
  "ex_decline_json = ''{\"should_reply\": false, \"reason\": \"busy\"}''"

definition ex_decline_text :: string where
  "ex_decline_text = ''sure, here you go: '' @ ex_decline_json"

definition ex_loads :: "string \<Rightarrow> pyval option" where
  "ex_loads t =
     (if t = ex_verdict_text
      then Some (PDict [(''should_reply'', PBool True), (''interest'', PStr ''high''),
                        (''feeling'', PStr ''curious'')])
      else if t = ex_decline_json
      then Some (PDict [(''should_reply'', PBool False), (''reason'', PStr ''busy'')])
      else None)"

definition ex_str :: "pyval \<Rightarrow> string" where
  "ex_str v = (case v of PStr s \<Rightarrow> s | _ \<Rightarrow> [])"

definition ex_history :: history where
  "ex_history = [(''aiocqhttp:GroupMessage:group1'', [User ''42'' ''Ann'' ''hi''])]"

definition ex_document :: string where
  "ex_document =
     ''{'' @ [CHR 0x0A]
     @ ''  \"aiocqhttp:GroupMessage:group1\": ['' @ [CHR 0x0A]
     @ ''    {'' @ [CHR 0x0A]
     @ ''      \"role\": \"user\",'' @ [CHR 0x0A]
     @ ''      \"sender_id\": \"42\",'' @ [CHR 0x0A]
     @ ''      \"sender_name\": \"Ann\",'' @ [CHR 0x0A]
     @ ''      \"content\": \"hi\"'' @ [CHR 0x0A]
     @ ''    }'' @ [CHR 0x0A]
     @ ''  ]'' @ [CHR 0x0A]
     @ ''}''"


text \<open>The environment in which the classifier answers \<open>answer\<close> and the draw is \<open>draw\<close>.\<close>

definition ex_env :: "string \<Rightarrow> real \<Rightarrow> env" where
  "ex_env answer draw =
     \<lparr>persona_prompt = [],
      get_provider_by_id = (\<lambda>pid. if pid = ''clf'' then Some (\<lambda>p. Some answer) else None),
      json_loads = ex_loads, py_str = ex_str, random_random = draw,
      json_dumps = py_json_dumps, json_loads_history = py_json_loads_history,
      write_result = WriteOk, read_ok = True\<rparr>"

section \<open>Lemmas about the primitives\<close>

lemma log_action_simps [simp]:
  "history_cache (log_action a s) = history_cache s"
  "history_file (log_action a s) = history_file s"
  "trace (log_action a s) = trace s @ [a]"
  by (simp_all add: log_action_def)

lemma map_of_trim_all: "map_of (trim_all n h) k = map_option (slice_from (- n)) (map_of h k)"
  by (induction h) (auto simp: trim_all_def)

lemma keys_trim_all: "map fst (trim_all n h) = map fst h"
  by (induction h) (auto simp: trim_all_def)

lemma cache_get_append_same: "cache_get (cache_append sid t h) sid = cache_get h sid @ [t]"
  by (simp add: cache_get_def cache_append_def update_conv')

lemma cache_get_append_other: "k \<noteq> sid \<Longrightarrow> cache_get (cache_append sid t h) k = cache_get h k"
  by (simp add: cache_get_def cache_append_def update_conv')

lemma slice_to_butlast: "slice_to (- 1) (xs @ [x]) = xs"
  by (simp add: slice_to_def)

lemma greedy_to_brace_None: "greedy_to_brace s = None \<longleftrightarrow> CHR ''}'' \<notin> set s"
  by (induction s) (auto split: option.splits)

lemma greedy_to_brace_no_brace: "CHR ''}'' \<notin> set s \<Longrightarrow> greedy_to_brace s = None"
  by (simp add: greedy_to_brace_None)

lemma greedy_to_brace_last:
  "CHR ''}'' \<notin> set post \<Longrightarrow> greedy_to_brace (mid @ CHR ''}'' # post) = Some (mid @ [CHR ''}''])"
  by (induction mid) (simp_all add: greedy_to_brace_no_brace)

lemma greedy_to_brace_Some:
  "greedy_to_brace s = Some m \<Longrightarrow>
     \<exists>mid post. m = mid @ [CHR ''}''] \<and> s = m @ post \<and> CHR ''}'' \<notin> set post"
proof (induction s arbitrary: m)
  case Nil
  then show ?case by simp
next
  case (Cons c cs)
  show ?case
  proof (cases "greedy_to_brace cs")
    case None
    with Cons.prems have "c = CHR ''}''" and "m = [c]"
      by (auto split: if_splits)
    moreover from None have "CHR ''}'' \<notin> set cs"
      by (simp add: greedy_to_brace_None)
    ultimately show ?thesis by auto
  next
    case (Some m')
    with Cons.prems have m: "m = c # m'" by simp
    from Cons.IH [OF Some] obtain mid post
      where "m' = mid @ [CHR ''}'']" "cs = m' @ post" "CHR ''}'' \<notin> set post"
      by blast
    with m have "m = (c # mid) @ [CHR ''}''] \<and> c # cs = m @ post \<and> CHR ''}'' \<notin> set post"
      by simp
    then show ?thesis by blast
  qed
qed

lemma re_search_match:
  "CHR ''{'' \<notin> set pre \<Longrightarrow> CHR ''}'' \<notin> set post \<Longrightarrow>
     re_search (pre @ CHR ''{'' # mid @ CHR ''}'' # post) = Some (CHR ''{'' # mid @ [CHR ''}''])"
  by (induction pre) (auto simp: greedy_to_brace_last)

lemma re_search_Some:
  "re_search t = Some m \<Longrightarrow>
     \<exists>pre mid post. t = pre @ m @ post \<and> m = CHR ''{'' # mid @ [CHR ''}'']
        \<and> CHR ''{'' \<notin> set pre \<and> CHR ''}'' \<notin> set post"
proof (induction t)
  case Nil
  then show ?case by simp
next
  case (Cons c cs)
  show ?case
  proof (cases "c = CHR ''{'' \<and> greedy_to_brace cs \<noteq> None")
    case True
    then obtain m' where g: "greedy_to_brace cs = Some m'" by auto
    with True Cons.prems have m: "m = c # m'" by simp
    from greedy_to_brace_Some [OF g] obtain mid post
      where "m' = mid @ [CHR ''}'']" "cs = m' @ post" "CHR ''}'' \<notin> set post"
      by blast
    with m True have "c # cs = [] @ m @ post \<and> m = CHR ''{'' # mid @ [CHR ''}'']
        \<and> CHR ''{'' \<notin> set [] \<and> CHR ''}'' \<notin> set post"
      by simp
    then show ?thesis by blast
  next
    case False
    with Cons.prems have r: "re_search cs = Some m"
      by (auto split: if_splits option.splits)
    from Cons.IH [OF r] obtain pre mid post
      where *: "cs = pre @ m @ post" "m = CHR ''{'' # mid @ [CHR ''}'']"
        "CHR ''{'' \<notin> set pre" "CHR ''}'' \<notin> set post"
      by blast
    have "c \<noteq> CHR ''{''"
    proof
      assume c: "c = CHR ''{''"
      with False have "greedy_to_brace cs = None" by simp
      then have "CHR ''}'' \<notin> set cs" by (simp add: greedy_to_brace_None)
      with * show False by simp
    qed
    with * have "c # cs = (c # pre) @ m @ post \<and> m = CHR ''{'' # mid @ [CHR ''}'']
        \<and> CHR ''{'' \<notin> set (c # pre) \<and> CHR ''}'' \<notin> set post"
      by simp
    then show ?thesis by blast
  qed
qed

lemma re_search_iff:
  "re_search t = Some m \<longleftrightarrow>
     (\<exists>pre mid post. t = pre @ m @ post \<and> m = CHR ''{'' # mid @ [CHR ''}'']
        \<and> CHR ''{'' \<notin> set pre \<and> CHR ''}'' \<notin> set post)"
  using re_search_Some re_search_match by fastforce

lemma re_search_None_iff:
  "re_search t = None \<longleftrightarrow> \<not> (\<exists>pre mid post. t = pre @ CHR ''{'' # mid @ CHR ''}'' # post)"
proof
  assume n: "re_search t = None"
  have "re_search (pre @ CHR ''{'' # rest) = None \<Longrightarrow> CHR ''}'' \<notin> set rest" for pre rest
    by (induction pre) (auto simp: greedy_to_brace_None split: if_splits option.splits)
  then have *: "t = pre @ CHR ''{'' # rest \<Longrightarrow> CHR ''}'' \<notin> set rest" for pre rest
    using n by blast
  show "\<not> (\<exists>pre mid post. t = pre @ CHR ''{'' # mid @ CHR ''}'' # post)"
  proof
    assume "\<exists>pre mid post. t = pre @ CHR ''{'' # mid @ CHR ''}'' # post"
    then obtain pre mid post where "t = pre @ CHR ''{'' # mid @ CHR ''}'' # post" by blast
    from * [OF this] show False by simp
  qed
next
  assume a: "\<not> (\<exists>pre mid post. t = pre @ CHR ''{'' # mid @ CHR ''}'' # post)"
  show "re_search t = None"
  proof (cases "re_search t")
    case None
    then show ?thesis .
  next
    case (Some m)
    from re_search_Some [OF Some] obtain pre mid post
      where "t = pre @ m @ post" "m = CHR ''{'' # mid @ [CHR ''}'']" by blast
    then have "t = pre @ CHR ''{'' # mid @ CHR ''}'' # post" by simp
    with a show ?thesis by blast
  qed
qed

section \<open>Lemmas about the JSON codec\<close>

lemma hex4_length: "hex4 s = Some (u, r) \<Longrightarrow> length r < length s"
  by (auto simp: hex4_def split: list.splits option.splits)

lemma decode_unicode_length: "decode_unicode s = Some (b, r) \<Longrightarrow> length r < length s"
proof -
  assume a: "decode_unicode s = Some (b, r)"
  then obtain u r1 where h: "hex4 s = Some (u, r1)"
    by (auto simp: decode_unicode_def split: option.splits)
  then have l1: "length r1 < length s" by (rule hex4_length)
  show ?thesis
  proof (cases "r = r1")
    case True
    with l1 show ?thesis by simp
  next
    case False
    with a h obtain u2 where "hex4 (tl (tl r1)) = Some (u2, r)"
      by (auto simp: decode_unicode_def split: option.splits if_splits)
    then have "length r < length (tl (tl r1))" by (rule hex4_length)
    with l1 show ?thesis by simp
  qed
qed

subsection \<open>Strings are read back\<close>








declare scanstring.simps [simp del]




subsection \<open>Integers are read back\<close>








subsection \<open>Whitespace and the first character of a value\<close>












subsection \<open>Lists and dictionaries are read back\<close>






lemma length_join_ge:
  "(\<Sum>x\<leftarrow>xs. length x) \<le> length (join sep xs)"
  by (induction sep xs rule: join.induct) simp_all



subsection \<open>The cache is read back\<close>










lemma py_json_dumps_ex_history: "py_json_dumps ex_history = ex_document"
  by (simp add: py_json_dumps_def history_to_py_def turn_to_py_def encode_basestring_def
      escape_char_def newline_indent_def ex_history_def ex_document_def eval_nat_numeral)

section \<open>Lemmas about the store and the handlers\<close>

lemma analysis_prompt_log [simp]:
  "analysis_prompt env cfg ev rq (log_action a s) = analysis_prompt env cfg ev rq s"
  by (simp add: analysis_prompt_def history_for_analysis_def split: option.splits)

lemma history_for_analysis_append:
  "history_for_analysis (append_user_turn ev rq s) (unified_msg_origin ev)
     = cache_get (history_cache s) (unified_msg_origin ev)"
  by (simp add: history_for_analysis_def append_user_turn_def cache_get_append_same
      slice_to_butlast)

lemma append_user_turn_simps [simp]:
  "history_cache (append_user_turn ev rq s)
     = cache_append (unified_msg_origin ev) (user_history_entry ev rq) (history_cache s)"
  "history_file (append_user_turn ev rq s) = history_file s"
  "trace (append_user_turn ev rq s) = trace s @ [CacheAppend (unified_msg_origin ev)]"
  by (simp_all add: append_user_turn_def)

lemma save_history_simps:
  "history_cache (save_history env cfg s) = trim_all (max_len cfg) (history_cache s)"
  "trace (save_history env cfg s) = trace s @ [Acquire, CacheTrim, FileWrite, Release]"
  "history_file (save_history env cfg s) =
     (case write_result env of
        WriteOk \<Rightarrow> Some (json_dumps env (trim_all (max_len cfg) (history_cache s)))
      | OpenFails \<Rightarrow> history_file s
      | WriteFails partial \<Rightarrow> Some partial)"
  by (simp_all add: save_history_def Let_def split: write_outcome.splits)

lemma fst_set_trim_all: "fst ` set (trim_all n h) = fst ` set h"
  using keys_trim_all [of n h] by (metis list.set_map)

lemma cache_get_trim_all: "cache_get (trim_all n h) k = slice_from (- n) (cache_get h k)"
  by (simp add: cache_get_def map_of_trim_all slice_from_def split: option.splits)

lemma cache_get_delete: "cache_get (AList.delete k h) k = []"
  by (simp add: cache_get_def delete_conv')

lemma keys_delete: "k \<notin> fst ` set (AList.delete k h)"
  by (induction h) (auto simp: AList.delete_eq)

lemma slice_from_neg: "0 < n \<Longrightarrow> slice_from (- n) xs = drop (length xs - nat n) xs"
proof -
  assume n: "0 < n"
  have "nat (int (length xs) + - n) = length xs - nat n"
    using n by linarith
  with n show ?thesis by (simp add: slice_from_def)
qed

lemma length_slice_from_neg: "0 < n \<Longrightarrow> int (length (slice_from (- n) xs)) \<le> n"
  by (simp add: slice_from_neg)

lemma interest_analyzer_no_verdict:
  assumes "gates env cfg ev = Some text_chat"
    and "analysis_prompt env cfg ev rq (append_user_turn ev rq s) = Some p"
    and "text_chat p = Some response_text"
    and "parse_verdict env response_text = None"
  shows "interest_analyzer env cfg ev rq s =
           (log_action (TextChat p) (log_action (CacheRead (unified_msg_origin ev))
              (append_user_turn ev rq s)), ev, rq)"
  using assms by (simp add: interest_analyzer_def analyze_def Let_def)

lemma interest_analyzer_verdict:
  assumes "gates env cfg ev = Some text_chat"
    and "analysis_prompt env cfg ev rq (append_user_turn ev rq s) = Some p"
    and "text_chat p = Some response_text"
    and "parse_verdict env response_text = Some d"
  shows "interest_analyzer env cfg ev rq s =
           apply_verdict env cfg d ev rq
             (log_action (TextChat p) (log_action (CacheRead (unified_msg_origin ev))
                (append_user_turn ev rq s)))"
  using assms by (simp add: interest_analyzer_def analyze_def Let_def)

lemma apply_verdict_approved:
  assumes "truthy (dict_get d ''should_reply'' (PBool True))"
  shows "apply_verdict env cfg d ev rq s =
     (if random_random env > reply_chance cfg
      then (save_history env cfg s, ev\<lparr>stopped := True\<rparr>, rq)
      else (s, ev\<lparr>pic_emotion_data := Some (dict_get d ''interest'' (PStr ''normal''),
                                              dict_get d ''feeling'' (PStr ''neutral''))\<rparr>,
            rq\<lparr>prompt := Some (injection_wrapper env rq
                 (dict_get d ''interest'' (PStr ''normal''))
                 (dict_get d ''feeling'' (PStr ''neutral'')))\<rparr>))"
  using assms by (simp add: apply_verdict_def Let_def)

lemma parse_verdict_None:
  assumes "\<And>m. re_search t = Some m \<Longrightarrow> json_loads env m = None"
  shows "parse_verdict env t = None"
  using assms by (simp add: parse_verdict_def split: option.splits)

lemma analyze_trace:
  "\<exists>rest. trace (fst (analyze env cfg text_chat ev rq s))
     = trace s @ [CacheAppend (unified_msg_origin ev), CacheRead (unified_msg_origin ev)]
       @ (case analysis_prompt env cfg ev rq (append_user_turn ev rq s) of
            None \<Rightarrow> []
          | Some p \<Rightarrow> TextChat p # rest)"
proof (cases "analysis_prompt env cfg ev rq (append_user_turn ev rq s)")
  case None
  then show ?thesis by (simp add: analyze_def Let_def)
next
  case (Some p)
  show ?thesis
  proof (cases "text_chat p")
    case None
    with Some show ?thesis by (simp add: analyze_def Let_def)
  next
    case r: (Some response_text)
    show ?thesis
    proof (cases "parse_verdict env response_text")
      case None
      with Some r show ?thesis by (simp add: analyze_def Let_def)
    next
      case d: (Some d)
      with Some r show ?thesis
        by (simp add: analyze_def Let_def apply_verdict_def save_history_simps)
    qed
  qed
qed

lemma last_slice_from_neg:
  "0 < n \<Longrightarrow> xs \<noteq> [] \<Longrightarrow> slice_from (- n) xs \<noteq> [] \<and> last (slice_from (- n) xs) = last xs"
proof -
  assume n: "0 < n" and xs: "xs \<noteq> []"
  have l: "length xs - nat n < length xs"
    using n xs by (simp add: diff_less)
  then have "drop (length xs - nat n) xs \<noteq> []" by simp
  moreover from l have "last (drop (length xs - nat n) xs) = last xs" by simp
  ultimately show ?thesis
    using n by (simp add: slice_from_neg)
qed

lemma analyze_cache:
  "history_cache (fst (analyze env cfg text_chat ev rq s))
     = cache_append (unified_msg_origin ev) (user_history_entry ev rq) (history_cache s)
   \<or> history_cache (fst (analyze env cfg text_chat ev rq s))
     = trim_all (max_len cfg)
         (cache_append (unified_msg_origin ev) (user_history_entry ev rq) (history_cache s))"
  by (auto simp: analyze_def Let_def apply_verdict_def save_history_simps split: option.splits)


lemma analyze_last_turn:
  assumes "0 < max_len cfg"
  shows "cache_get (history_cache (fst (analyze env cfg text_chat ev rq s))) (unified_msg_origin ev) \<noteq> []
     \<and> last (cache_get (history_cache (fst (analyze env cfg text_chat ev rq s))) (unified_msg_origin ev))
         = user_history_entry ev rq"
  using analyze_cache [of env cfg text_chat ev rq s]
    last_slice_from_neg [OF assms, of "cache_get (history_cache s) (unified_msg_origin ev) @ [user_history_entry ev rq]"]
  by (auto simp: cache_get_trim_all cache_get_append_same)

lemma analyze_unlocked:
  "unlocked_accesses False (trace (fst (analyze env cfg text_chat ev rq (s\<lparr>trace := []\<rparr>))))
     = [CacheAppend (unified_msg_origin ev), CacheRead (unified_msg_origin ev)]"
  by (auto simp: analyze_def Let_def apply_verdict_def save_history_simps split: option.splits)

text \<open>The definitions that evaluating a handler on the example inputs unfolds.\<close>

lemmas ex_defs = ex_config_def ex_event_def ex_req_def ex_env_def ex_loads_def ex_str_def
  ex_decline_json_def ex_decline_text_def
  ex_verdict_text_def ex_history_def ex_document_def init_store_def
  py_json_dumps_def history_to_py_def turn_to_py_def encode_basestring_def escape_char_def
  newline_indent_def

lemmas model_defs = interest_analyzer_def analyze_def gates_def subject_id_def py_or_def
  whitelist_of_def append_user_turn_def cache_append_def cache_get_def log_action_def
  analysis_prompt_def render_prompt_def awakening_context_str_def persona_description_def
  formatted_history_def history_for_analysis_def slice_to_def format_history_entry_def
  user_history_entry_def current_message_def placeholder_def parse_verdict_def
  apply_verdict_def dict_get_def reply_chance_def save_history_def trim_all_def max_len_def
  slice_from_def injection_wrapper_def

section \<open>Trimming on persist\<close>

text \<open>
  C1. After \<^verbatim>\<open>_save_history\<close> every session's log should hold at most \<^verbatim>\<open>history_max_length\<close>
  turns, the most recent ones. With \<^verbatim>\<open>history_max_length = 0\<close> the slice of line 47 is
  \<^verbatim>\<open>log[-0:]\<close>, which is \<^verbatim>\<open>log[0:]\<close>, the whole log: a session with two turns still has
  both after the call, where the bound asks for none.
\<close>

theorem save_history_zero_max_length_keeps_log:
  "max_len (ex_config\<lparr>history_max_length := Some 0\<rparr>) = 0
   \<and> history_cache (save_history (ex_env [] 0) (ex_config\<lparr>history_max_length := Some 0\<rparr>)
         \<lparr>history_cache = [(''s'', [User ''42'' ''Ann'' ''a'', User ''42'' ''Ann'' ''b''])],
          history_file = None, trace = []\<rparr>)
       = [(''s'', [User ''42'' ''Ann'' ''a'', User ''42'' ''Ann'' ''b''])]
   \<and> length (cache_get (history_cache (save_history (ex_env [] 0)
         (ex_config\<lparr>history_max_length := Some 0\<rparr>)
         \<lparr>history_cache = [(''s'', [User ''42'' ''Ann'' ''a'', User ''42'' ''Ann'' ''b''])],
          history_file = None, trace = []\<rparr>)) ''s'') = 2"
  by (simp add: ex_defs model_defs)

text \<open>
  For a positive \<^verbatim>\<open>history_max_length\<close> the trim does what it is meant to: the sessions
  stay the same, every session's log becomes its last \<^verbatim>\<open>history_max_length\<close> turns in
  their order (the whole log when it is shorter), its length is within the bound, and a
  successful write leaves the serialised trimmed cache in the file.
\<close>

theorem save_history_keeps_most_recent:
  assumes "0 < max_len cfg"
  shows "map fst (history_cache (save_history env cfg s)) = map fst (history_cache s)
     \<and> cache_get (history_cache (save_history env cfg s)) sid
         = drop (length (cache_get (history_cache s) sid) - nat (max_len cfg))
             (cache_get (history_cache s) sid)
     \<and> int (length (cache_get (history_cache (save_history env cfg s)) sid)) \<le> max_len cfg
     \<and> (write_result env = WriteOk
          \<longrightarrow> history_file (save_history env cfg s)
                = Some (json_dumps env (history_cache (save_history env cfg s))))"
proof -
  have c: "cache_get (history_cache (save_history env cfg s)) sid
      = slice_from (- max_len cfg) (cache_get (history_cache s) sid)"
    by (simp add: save_history_simps cache_get_trim_all)
  have "map fst (history_cache (save_history env cfg s)) = map fst (history_cache s)"
    by (simp add: save_history_simps keys_trim_all)
  moreover have "cache_get (history_cache (save_history env cfg s)) sid
         = drop (length (cache_get (history_cache s) sid) - nat (max_len cfg))
             (cache_get (history_cache s) sid)"
    unfolding c using assms by (rule slice_from_neg)
  moreover have "int (length (cache_get (history_cache (save_history env cfg s)) sid)) \<le> max_len cfg"
    unfolding c using assms by (rule length_slice_from_neg)
  moreover have "write_result env = WriteOk
          \<longrightarrow> history_file (save_history env cfg s)
                = Some (json_dumps env (history_cache (save_history env cfg s)))"
    by (simp add: save_history_simps)
  ultimately show ?thesis by blast
qed

theorem save_history_keeps_most_recent_witness:
  "cache_get (history_cache (save_history (ex_env [] 0) (ex_config\<lparr>history_max_length := Some 1\<rparr>)
         \<lparr>history_cache = [(''s'', [User ''42'' ''Ann'' ''a'', User ''42'' ''Ann'' ''b''])],
          history_file = None, trace = []\<rparr>)) ''s''
     = [User ''42'' ''Ann'' ''b'']"
proof -
  have m: "0 < max_len (ex_config\<lparr>history_max_length := Some 1\<rparr>)"
    by (simp add: max_len_def)
  have m1: "max_len (ex_config\<lparr>history_max_length := Some 1\<rparr>) = 1"
    by (simp add: max_len_def)
  from save_history_keeps_most_recent [OF m, of "ex_env [] 0"
      "\<lparr>history_cache = [(''s'', [User ''42'' ''Ann'' ''a'', User ''42'' ''Ann'' ''b''])],
        history_file = None, trace = []\<rparr>" "''s''"]
  show ?thesis
    unfolding m1 by (simp add: cache_get_def)
qed

section \<open>Verdict parsing\<close>

text \<open>
  C2. The search returns a match exactly when the text splits into a part without an
  opening brace, the match, which starts with an opening and ends with a closing brace,
  and a part without a closing brace: the match runs from the first opening brace to the
  last closing one, whatever characters (newlines too) lie between. There is no match
  exactly when no opening brace is followed by a closing one. When the decoder gives a
  dictionary for the match, that dictionary is the verdict. When there is no match, or
  the decoder fails on the match, parsing yields no verdict; it is a total function, so it
  never raises. When parsing yields no verdict the handler returns the event and the
  request as they were. The texts \<^verbatim>\<open>no json here\<close> and \<^verbatim>\<open>{broken\<close> yield no verdict, whatever
  the decoder.
\<close>

theorem verdict_parsing_total:
  "(re_search t = Some m \<longleftrightarrow>
      (\<exists>pre mid post. t = pre @ m @ post \<and> m = CHR ''{'' # mid @ [CHR ''}'']
          \<and> CHR ''{'' \<notin> set pre \<and> CHR ''}'' \<notin> set post))
   \<and> (re_search t = None \<longleftrightarrow>
        \<not> (\<exists>pre mid post. t = pre @ CHR ''{'' # mid @ CHR ''}'' # post))
   \<and> (re_search t = Some m \<and> json_loads env m = Some (PDict d)
        \<longrightarrow> parse_verdict env t = Some d)
   \<and> ((\<forall>m. re_search t = Some m \<longrightarrow> json_loads env m = None)
        \<longrightarrow> parse_verdict env t = None)
   \<and> (gates env cfg ev = Some text_chat
        \<and> analysis_prompt env cfg ev rq (append_user_turn ev rq s) = Some p
        \<and> text_chat p = Some t \<and> parse_verdict env t = None
        \<longrightarrow> snd (interest_analyzer env cfg ev rq s) = (ev, rq))
   \<and> parse_verdict env ''no json here'' = None
   \<and> parse_verdict env ''{broken'' = None"
proof -
  have "parse_verdict env ''no json here'' = None" "parse_verdict env ''{broken'' = None"
    by (simp_all add: parse_verdict_def)
  moreover have "(\<forall>m. re_search t = Some m \<longrightarrow> json_loads env m = None)
        \<longrightarrow> parse_verdict env t = None"
    using parse_verdict_None [of t env] by blast
  moreover have "re_search t = Some m \<and> json_loads env m = Some (PDict d)
        \<longrightarrow> parse_verdict env t = Some d"
    by (simp add: parse_verdict_def)
  moreover have "gates env cfg ev = Some text_chat
        \<and> analysis_prompt env cfg ev rq (append_user_turn ev rq s) = Some p
        \<and> text_chat p = Some t \<and> parse_verdict env t = None
        \<longrightarrow> snd (interest_analyzer env cfg ev rq s) = (ev, rq)"
    by (auto simp: interest_analyzer_no_verdict)
  ultimately show ?thesis
    using re_search_iff [of t m] re_search_None_iff [of t] by blast
qed

theorem verdict_parsing_witness:
  "re_search ''ok: {\"a\": {1}} } tail'' = Some ''{\"a\": {1}} }''
   \<and> re_search ''} {'' = None
   \<and> parse_verdict (ex_env [] 0) ex_decline_text
       = Some [(''should_reply'', PBool False), (''reason'', PStr ''busy'')]
   \<and> parse_verdict (ex_env ''{broken}'' 0) ''{broken}'' = None
   \<and> snd (interest_analyzer (ex_env ''{broken}'' 0) ex_config ex_event ex_req (init_store None))
       = (ex_event, ex_req)"
proof -
  let ?env = "ex_env ''{broken}'' 0"
  let ?p = "''|You are a cat.|No previous conversation history.|user (Ann/42): hello''"
  let ?d = "[(''should_reply'', PBool False), (''reason'', PStr ''busy'')]"
  have d: "''ok: {\"a\": {1}} } tail'' = ''ok: '' @ ''{\"a\": {1}} }'' @ '' tail''
      \<and> ''{\"a\": {1}} }'' = CHR ''{'' # ''\"a\": {1}} '' @ [CHR ''}'']
      \<and> CHR ''{'' \<notin> set ''ok: '' \<and> CHR ''}'' \<notin> set '' tail''"
    by simp
  have n: "\<not> (\<exists>pre mid post. ''} {'' = pre @ CHR ''{'' # mid @ CHR ''}'' # post)"
    by (simp add: append_eq_Cons_conv Cons_eq_append_conv)
  have l: "\<forall>m. re_search ''{broken}'' = Some m \<longrightarrow> json_loads ?env m = None"
    by (simp add: ex_defs)
  have g: "gates ?env ex_config ex_event = Some (\<lambda>p. Some ''{broken}'')"
    by (simp add: ex_defs model_defs)
  have p: "analysis_prompt ?env ex_config ex_event ex_req
       (append_user_turn ex_event ex_req (init_store None)) = Some ?p"
    by (simp add: ex_defs model_defs)
  have e: "ex_decline_text = ''sure, here you go: '' @ ex_decline_json @ []
      \<and> ex_decline_json = CHR ''{'' # ''\"should_reply\": false, \"reason\": \"busy\"'' @ [CHR ''}'']
      \<and> CHR ''{'' \<notin> set ''sure, here you go: '' \<and> CHR ''}'' \<notin> set []"
    by (simp add: ex_decline_text_def ex_decline_json_def)
  have j: "json_loads (ex_env [] 0) ex_decline_json = Some (PDict ?d)"
    by (simp add: ex_defs)
  note v = verdict_parsing_total [of "''{broken}''" _ ?env _ ex_config ex_event
      "\<lambda>p. Some ''{broken}''" ex_req "init_store None" ?p]
  from v l have pv: "parse_verdict ?env ''{broken}'' = None" by blast
  with v g p have "snd (interest_analyzer ?env ex_config ex_event ex_req (init_store None))
       = (ex_event, ex_req)" by blast
  moreover from verdict_parsing_total [of "''ok: {\"a\": {1}} } tail''" "''{\"a\": {1}} }''"] d
  have "re_search ''ok: {\"a\": {1}} } tail'' = Some ''{\"a\": {1}} }''" by blast
  moreover from verdict_parsing_total [of "''} {''"] n
  have "re_search ''} {'' = None" by blast
  moreover have "parse_verdict (ex_env [] 0) ex_decline_text = Some ?d"
  proof -
    from verdict_parsing_total [of ex_decline_text ex_decline_json] e
    have "re_search ex_decline_text = Some ex_decline_json" by blast
    with verdict_parsing_total [of ex_decline_text ex_decline_json "ex_env [] 0" ?d] j
    show ?thesis by blast
  qed
  ultimately show ?thesis using pv by blast
qed

section \<open>The probabilistic gate\<close>

text \<open>
  C3, as amended. For a message that passed the gates and whose classifier answer parsed
  into a verdict with a truthy \<^verbatim>\<open>should_reply\<close>, with a draw in \<open>[0, 1)\<close>: the handler stops
  the event exactly when the draw is greater than the configured reply chance; with a
  chance of 0 every draw greater than 0 stops the event and leaves the request as it was;
  with the default chance (1.0) the event is never stopped by this step. The comparisons
  are those of the numbers the floating-point values denote.
\<close>

theorem random_gate_stops_iff_draw_exceeds:
  assumes "gates env cfg ev = Some text_chat"
    and "analysis_prompt env cfg ev rq (append_user_turn ev rq s) = Some p"
    and "text_chat p = Some response_text"
    and "parse_verdict env response_text = Some d"
    and "truthy (dict_get d ''should_reply'' (PBool True))"
    and "\<not> stopped ev"
    and "0 \<le> random_random env" and "random_random env < 1"
  shows "(stopped (fst (snd (interest_analyzer env cfg ev rq s)))
           \<longleftrightarrow> random_random env > reply_chance cfg)
     \<and> (random_reply_chance cfg = Some 0 \<and> 0 < random_random env
           \<longrightarrow> stopped (fst (snd (interest_analyzer env cfg ev rq s)))
               \<and> snd (snd (interest_analyzer env cfg ev rq s)) = rq)
     \<and> (random_reply_chance cfg = None
           \<longrightarrow> \<not> stopped (fst (snd (interest_analyzer env cfg ev rq s))))"
  using assms(5-8)
  by (simp add: interest_analyzer_verdict [OF assms(1-4)] apply_verdict_approved reply_chance_def)

theorem random_gate_witness:
  "stopped (fst (snd (interest_analyzer (ex_env ex_verdict_text (1 / 2))
      (ex_config\<lparr>random_reply_chance := Some 0\<rparr>) ex_event ex_req (init_store None))))
   \<and> \<not> stopped (fst (snd (interest_analyzer (ex_env ex_verdict_text (1 / 2))
      ex_config ex_event ex_req (init_store None))))"
proof -
  let ?env = "ex_env ex_verdict_text (1 / 2)"
  let ?cfg = "ex_config\<lparr>random_reply_chance := Some 0\<rparr>"
  let ?p = "''|You are a cat.|No previous conversation history.|user (Ann/42): hello''"
  let ?d = "[(''should_reply'', PBool True), (''interest'', PStr ''high''),
             (''feeling'', PStr ''curious'')]"
  have g: "gates ?env ?cfg ex_event = Some (\<lambda>p. Some ex_verdict_text)"
    and g': "gates ?env ex_config ex_event = Some (\<lambda>p. Some ex_verdict_text)"
    by (simp_all add: ex_defs model_defs)
  have p: "analysis_prompt ?env ?cfg ex_event ex_req
       (append_user_turn ex_event ex_req (init_store None)) = Some ?p"
    and p': "analysis_prompt ?env ex_config ex_event ex_req
       (append_user_turn ex_event ex_req (init_store None)) = Some ?p"
    by (simp_all add: ex_defs model_defs)
  have v: "parse_verdict ?env ex_verdict_text = Some ?d"
    by (simp add: ex_defs model_defs)
  have t: "truthy (dict_get ?d ''should_reply'' (PBool True))"
    by (simp add: dict_get_def)
  have e: "\<not> stopped ex_event" by (simp add: ex_event_def)
  have r: "0 \<le> random_random ?env" "random_random ?env < 1"
    by (simp_all add: ex_env_def)
  have c: "random_reply_chance ?cfg = Some 0" "0 < random_random ?env"
    by (simp_all add: ex_env_def)
  have c': "random_reply_chance ex_config = None"
    by (simp add: ex_config_def)
  from random_gate_stops_iff_draw_exceeds [OF g p refl v t e r] c
    random_gate_stops_iff_draw_exceeds [OF g' p' refl v t e r] c'
  show ?thesis by blast
qed

text \<open>
  C3, as stated, fails: with a reply chance of 0 and a draw of exactly 0 (a value
  \<^verbatim>\<open>random.random()\<close> can return) the draw does not exceed the chance, the approved reply
  is not suppressed and the request's prompt is rewritten.
\<close>

theorem random_gate_zero_chance_zero_draw:
  "random_reply_chance (ex_config\<lparr>random_reply_chance := Some 0\<rparr>) = Some 0
   \<and> random_random (ex_env ex_verdict_text 0) = 0
   \<and> parse_verdict (ex_env ex_verdict_text 0) ex_verdict_text
       = Some [(''should_reply'', PBool True), (''interest'', PStr ''high''),
               (''feeling'', PStr ''curious'')]
   \<and> \<not> stopped (fst (snd (interest_analyzer (ex_env ex_verdict_text 0)
           (ex_config\<lparr>random_reply_chance := Some 0\<rparr>) ex_event ex_req (init_store None))))
   \<and> prompt (snd (snd (interest_analyzer (ex_env ex_verdict_text 0)
           (ex_config\<lparr>random_reply_chance := Some 0\<rparr>) ex_event ex_req (init_store None))))
       \<noteq> prompt ex_req"
  by (simp add: ex_defs model_defs)

section \<open>No verdict\<close>

text \<open>
  C4, as amended. When the classifier's answer yields no verdict, the handler returns the
  event and the request as they were; the cache holds the user's turn appended in step 5;
  and the durable file is as it was: the handler appended, read the log and called the
  classifier, and did nothing else, so it did not persist.
\<close>

theorem no_verdict_request_kept_not_persisted:
  assumes "gates env cfg ev = Some text_chat"
    and "analysis_prompt env cfg ev rq (append_user_turn ev rq s) = Some p"
    and "text_chat p = Some response_text"
    and "parse_verdict env response_text = None"
  shows "snd (interest_analyzer env cfg ev rq s) = (ev, rq)
     \<and> history_cache (fst (interest_analyzer env cfg ev rq s))
         = cache_append (unified_msg_origin ev) (user_history_entry ev rq) (history_cache s)
     \<and> history_file (fst (interest_analyzer env cfg ev rq s)) = history_file s
     \<and> trace (fst (interest_analyzer env cfg ev rq s))
         = trace s @ [CacheAppend (unified_msg_origin ev), CacheRead (unified_msg_origin ev),
                      TextChat p]"
  by (simp add: interest_analyzer_no_verdict [OF assms])

theorem no_verdict_witness:
  "snd (interest_analyzer (ex_env ''{broken'' 0) ex_config ex_event ex_req (init_store None))
     = (ex_event, ex_req)
   \<and> history_file (fst (interest_analyzer (ex_env ''{broken'' 0) ex_config ex_event ex_req
         (init_store None))) = None"
proof -
  have g: "gates (ex_env ''{broken'' 0) ex_config ex_event = Some (\<lambda>p. Some ''{broken'')"
    by (simp add: ex_defs model_defs)
  have p: "analysis_prompt (ex_env ''{broken'' 0) ex_config ex_event ex_req
       (append_user_turn ex_event ex_req (init_store None))
     = Some ''|You are a cat.|No previous conversation history.|user (Ann/42): hello''"
    by (simp add: ex_defs model_defs)
  have v: "parse_verdict (ex_env ''{broken'' 0) ''{broken'' = None"
    by (simp add: ex_defs model_defs)
  from no_verdict_request_kept_not_persisted [OF g p refl v] show ?thesis
    by (simp add: init_store_def)
qed

text \<open>
  C4, as stated, fails: starting without a history file, a classifier answer without
  braces leaves the user's turn in the cache and still no file; nothing was written.
\<close>

theorem no_verdict_not_persisted:
  "parse_verdict (ex_env ''no json here'' 0) ''no json here'' = None
   \<and> history_cache (fst (interest_analyzer (ex_env ''no json here'' 0) ex_config ex_event ex_req
         (init_store None)))
       = [(''aiocqhttp:GroupMessage:group1'', [User ''42'' ''Ann'' ''hello''])]
   \<and> history_file (fst (interest_analyzer (ex_env ''no json here'' 0) ex_config ex_event ex_req
         (init_store None))) = None
   \<and> FileWrite \<notin> set (trace (fst (interest_analyzer (ex_env ''no json here'' 0) ex_config
         ex_event ex_req (init_store None))))"
  by (simp add: ex_defs model_defs)

section \<open>Which operations take the lock\<close>

text \<open>
  C5, as amended. Started with the lock free, \<^verbatim>\<open>_save_history\<close> (persist) and
  \<^verbatim>\<open>_load_history\<close> (restore) acquire the lock first, release it last and make every
  access to the cache and the file in between: no access of theirs is made without the
  lock. The other operations access the cache without it: the accesses
  \<^verbatim>\<open>interest_analyzer\<close> makes without the lock are exactly its append and its read
  (lines 101 and 103), on every path; the reply hook appends (line 183) and only then
  acquires the lock, inside \<^verbatim>\<open>_save_history\<close>; \<^verbatim>\<open>view_history\<close> reads (line 195) and never
  acquires it; \<^verbatim>\<open>clear_history\<close> tests and deletes (lines 218 and 219) and only then acquires
  the lock, inside \<^verbatim>\<open>_save_history\<close>, and for an absent session it only tests.
\<close>

theorem lock_taken_by_persist_and_restore_only:
  "trace (save_history env cfg (s\<lparr>trace := []\<rparr>)) = [Acquire, CacheTrim, FileWrite, Release]
   \<and> unlocked_accesses False (trace (save_history env cfg (s\<lparr>trace := []\<rparr>))) = []
   \<and> locked False (trace (save_history env cfg (s\<lparr>trace := []\<rparr>)))
   \<and> trace (load_history env (s\<lparr>trace := []\<rparr>))
        \<in> {[Acquire, Release], [Acquire, FileRead, Release],
            [Acquire, FileRead, CacheAssign, Release]}
   \<and> unlocked_accesses False (trace (load_history env (s\<lparr>trace := []\<rparr>))) = []
   \<and> locked False (trace (load_history env (s\<lparr>trace := []\<rparr>)))
   \<and> (gates env cfg ev = Some text_chat
        \<longrightarrow> unlocked_accesses False (trace (fst (interest_analyzer env cfg ev rq (s\<lparr>trace := []\<rparr>))))
              = [CacheAppend (unified_msg_origin ev), CacheRead (unified_msg_origin ev)])
   \<and> (subject_id ev \<in> set (whitelist_of cfg) \<and> completion_text \<noteq> []
        \<longrightarrow> trace (save_llm_reply_to_history env cfg ev completion_text (s\<lparr>trace := []\<rparr>))
              = [CacheAppend (unified_msg_origin ev), Acquire, CacheTrim, FileWrite, Release]
            \<and> unlocked_accesses False
                (trace (save_llm_reply_to_history env cfg ev completion_text (s\<lparr>trace := []\<rparr>)))
              = [CacheAppend (unified_msg_origin ev)])
   \<and> trace (snd (view_history env ev (s\<lparr>trace := []\<rparr>))) = [CacheRead (unified_msg_origin ev)]
   \<and> unlocked_accesses False (trace (snd (view_history env ev (s\<lparr>trace := []\<rparr>))))
        = [CacheRead (unified_msg_origin ev)]
   \<and> (unified_msg_origin ev \<in> fst ` set (history_cache s)
        \<longrightarrow> trace (snd (clear_history env cfg ev (s\<lparr>trace := []\<rparr>)))
              = [CacheContains (unified_msg_origin ev), CacheDelete (unified_msg_origin ev),
                 Acquire, CacheTrim, FileWrite, Release]
            \<and> unlocked_accesses False (trace (snd (clear_history env cfg ev (s\<lparr>trace := []\<rparr>))))
              = [CacheContains (unified_msg_origin ev), CacheDelete (unified_msg_origin ev)])
   \<and> (unified_msg_origin ev \<notin> fst ` set (history_cache s)
        \<longrightarrow> trace (snd (clear_history env cfg ev (s\<lparr>trace := []\<rparr>)))
              = [CacheContains (unified_msg_origin ev)])"
proof -
  have sv: "trace (save_history env cfg (s\<lparr>trace := []\<rparr>)) = [Acquire, CacheTrim, FileWrite, Release]"
    by (simp add: save_history_simps)
  have ld: "trace (load_history env (s\<lparr>trace := []\<rparr>))
        \<in> {[Acquire, Release], [Acquire, FileRead, Release],
            [Acquire, FileRead, CacheAssign, Release]}"
    by (auto simp: load_history_def Let_def split: option.splits)
  have an: "gates env cfg ev = Some text_chat
        \<longrightarrow> unlocked_accesses False (trace (fst (interest_analyzer env cfg ev rq (s\<lparr>trace := []\<rparr>))))
              = [CacheAppend (unified_msg_origin ev), CacheRead (unified_msg_origin ev)]"
    by (simp add: interest_analyzer_def analyze_unlocked)
  have rp: "subject_id ev \<in> set (whitelist_of cfg) \<and> completion_text \<noteq> []
        \<longrightarrow> trace (save_llm_reply_to_history env cfg ev completion_text (s\<lparr>trace := []\<rparr>))
              = [CacheAppend (unified_msg_origin ev), Acquire, CacheTrim, FileWrite, Release]"
    by (simp add: save_llm_reply_to_history_def Let_def save_history_simps)
  have vw: "trace (snd (view_history env ev (s\<lparr>trace := []\<rparr>))) = [CacheRead (unified_msg_origin ev)]"
    by (simp add: view_history_def Let_def)
  have c1: "unified_msg_origin ev \<in> fst ` set (history_cache s)
        \<longrightarrow> trace (snd (clear_history env cfg ev (s\<lparr>trace := []\<rparr>)))
              = [CacheContains (unified_msg_origin ev), CacheDelete (unified_msg_origin ev),
                 Acquire, CacheTrim, FileWrite, Release]"
    by (simp add: clear_history_def Let_def save_history_simps)
  have c2: "unified_msg_origin ev \<notin> fst ` set (history_cache s)
        \<longrightarrow> trace (snd (clear_history env cfg ev (s\<lparr>trace := []\<rparr>)))
              = [CacheContains (unified_msg_origin ev)]"
    by (simp add: clear_history_def Let_def)
  from ld have lu: "unlocked_accesses False (trace (load_history env (s\<lparr>trace := []\<rparr>))) = []"
    and ll: "locked False (trace (load_history env (s\<lparr>trace := []\<rparr>)))"
    by auto
  show ?thesis
    using sv ld lu ll an rp vw c1 c2 by simp
qed

theorem lock_taken_witness:
  "unlocked_accesses False (trace (fst (interest_analyzer (ex_env ex_decline_text 0) ex_config
       ex_event ex_req (init_store None))))
     = [CacheAppend ''aiocqhttp:GroupMessage:group1'', CacheRead ''aiocqhttp:GroupMessage:group1'']
   \<and> trace (save_llm_reply_to_history (ex_env [] 0) ex_config ex_event ''meow'' (init_store None))
     = [CacheAppend ''aiocqhttp:GroupMessage:group1'', Acquire, CacheTrim, FileWrite, Release]
   \<and> trace (snd (clear_history (ex_env [] 0) ex_config ex_event
         \<lparr>history_cache = ex_history, history_file = None, trace = []\<rparr>))
     = [CacheContains ''aiocqhttp:GroupMessage:group1'', CacheDelete ''aiocqhttp:GroupMessage:group1'',
        Acquire, CacheTrim, FileWrite, Release]
   \<and> trace (snd (clear_history (ex_env [] 0) ex_config ex_event (init_store None)))
     = [CacheContains ''aiocqhttp:GroupMessage:group1'']"
proof -
  let ?s = "\<lparr>history_cache = ex_history, history_file = None, trace = []\<rparr>"
  have u: "unified_msg_origin ex_event = ''aiocqhttp:GroupMessage:group1''"
    by (simp add: ex_event_def)
  have g: "gates (ex_env ex_decline_text 0) ex_config ex_event = Some (\<lambda>p. Some ex_decline_text)"
    by (simp add: ex_defs model_defs)
  have w: "subject_id ex_event \<in> set (whitelist_of ex_config) \<and> ''meow'' \<noteq> []"
    by (simp add: ex_defs model_defs)
  have a: "unified_msg_origin ex_event \<in> fst ` set (history_cache ?s)"
    by (simp add: ex_event_def ex_history_def)
  have b: "unified_msg_origin ex_event \<notin> fst ` set (history_cache (init_store None))"
    by (simp add: init_store_def)
  have t: "init_store None\<lparr>trace := []\<rparr> = init_store None" "?s\<lparr>trace := []\<rparr> = ?s"
    by (simp_all add: init_store_def)
  from lock_taken_by_persist_and_restore_only [of "ex_env ex_decline_text 0" ex_config
      "init_store None" ex_event "\<lambda>p. Some ex_decline_text" ex_req] g
  have 1: "unlocked_accesses False (trace (fst (interest_analyzer (ex_env ex_decline_text 0)
       ex_config ex_event ex_req (init_store None))))
     = [CacheAppend ''aiocqhttp:GroupMessage:group1'', CacheRead ''aiocqhttp:GroupMessage:group1'']"
    unfolding t u by blast
  from lock_taken_by_persist_and_restore_only [of "ex_env [] 0" ex_config "init_store None"
      ex_event _ _ "''meow''"] w b
  have 2: "trace (save_llm_reply_to_history (ex_env [] 0) ex_config ex_event ''meow'' (init_store None))
     = [CacheAppend ''aiocqhttp:GroupMessage:group1'', Acquire, CacheTrim, FileWrite, Release]"
    and 4: "trace (snd (clear_history (ex_env [] 0) ex_config ex_event (init_store None)))
     = [CacheContains ''aiocqhttp:GroupMessage:group1'']"
    unfolding t u by blast+
  from lock_taken_by_persist_and_restore_only [of "ex_env [] 0" ex_config ?s ex_event] a
  have 3: "trace (snd (clear_history (ex_env [] 0) ex_config ex_event ?s))
     = [CacheContains ''aiocqhttp:GroupMessage:group1'', CacheDelete ''aiocqhttp:GroupMessage:group1'',
        Acquire, CacheTrim, FileWrite, Release]"
    unfolding t u by blast
  from 1 2 3 4 show ?thesis by blast
qed

text \<open>
  C5, as stated, fails: the actions of \<^verbatim>\<open>interest_analyzer\<close> and of \<^verbatim>\<open>clear_history\<close> on the
  example inputs are not all under the lock; \<^verbatim>\<open>clear_history\<close> tests and deletes first and
  only then acquires the lock, inside \<^verbatim>\<open>_save_history\<close>.
\<close>

theorem append_and_clear_run_without_lock:
  "\<not> locked False (trace (fst (interest_analyzer (ex_env ''no json here'' 0) ex_config ex_event
       ex_req (init_store None))))
   \<and> \<not> locked False (trace (snd (clear_history (ex_env [] 0) ex_config ex_event
       \<lparr>history_cache = ex_history, history_file = None, trace = []\<rparr>)))
   \<and> trace (snd (clear_history (ex_env [] 0) ex_config ex_event
       \<lparr>history_cache = ex_history, history_file = None, trace = []\<rparr>))
     = [CacheContains ''aiocqhttp:GroupMessage:group1'', CacheDelete ''aiocqhttp:GroupMessage:group1'',
        Acquire, CacheTrim, FileWrite, Release]"
  by (simp add: ex_defs model_defs clear_history_def)

section \<open>The allow-list gate\<close>

text \<open>
  C6. When the subject identifier (the group id if it is non-empty, else the sender id)
  is not in the configured allow-list, \<^verbatim>\<open>interest_analyzer\<close> returns with the store (cache,
  file and performed actions), the event and the request exactly as they were, so no
  session's log grows; the reply hook \<^verbatim>\<open>save_llm_reply_to_history\<close> leaves the store alone
  too.
\<close>

theorem not_whitelisted_untouched:
  assumes "subject_id ev \<notin> set (whitelist_of cfg)"
  shows "interest_analyzer env cfg ev rq s = (s, ev, rq)
     \<and> save_llm_reply_to_history env cfg ev reply s = s
     \<and> length (cache_get (history_cache (fst (interest_analyzer env cfg ev rq s))) sid)
         = length (cache_get (history_cache s) sid)"
  using assms by (simp add: interest_analyzer_def gates_def save_llm_reply_to_history_def)

theorem not_whitelisted_untouched_witness:
  "subject_id (ex_event\<lparr>group_id := ''group2''\<rparr>) \<notin> set (whitelist_of ex_config)
   \<and> interest_analyzer (ex_env ex_verdict_text 0) ex_config (ex_event\<lparr>group_id := ''group2''\<rparr>)
         ex_req (init_store None)
       = (init_store None, ex_event\<lparr>group_id := ''group2''\<rparr>, ex_req)
   \<and> save_llm_reply_to_history (ex_env ex_verdict_text 0) ex_config
         (ex_event\<lparr>group_id := ''group2''\<rparr>) ''meow'' (init_store None) = init_store None"
proof -
  have h: "subject_id (ex_event\<lparr>group_id := ''group2''\<rparr>) \<notin> set (whitelist_of ex_config)"
    by (simp add: subject_id_def py_or_def whitelist_of_def ex_event_def ex_config_def)
  from not_whitelisted_untouched [OF h] h show ?thesis by simp
qed

section \<open>The user's turn and the analysis context\<close>




section \<open>Persist, then restore\<close>




section \<open>Clearing a session\<close>

text \<open>
  C9. \<^verbatim>\<open>clear_history\<close> on a session that is not in the cache answers that there is nothing
  to clear and leaves cache and file as they were. On a session that is in the cache it
  answers that the history was cleared; the session is gone from the cache, reading its
  log gives the empty list and \<^verbatim>\<open>view_history\<close> answers that there is no history; the store
  is the result of \<^verbatim>\<open>_save_history\<close> after the deletion, so a successful write leaves the
  serialised cache in the file.
\<close>

theorem clear_history_reports_and_deletes:
  "(unified_msg_origin ev \<notin> fst ` set (history_cache s)
      \<longrightarrow> fst (clear_history env cfg ev s) = NothingToClear
          \<and> history_cache (snd (clear_history env cfg ev s)) = history_cache s
          \<and> history_file (snd (clear_history env cfg ev s)) = history_file s)
   \<and> (unified_msg_origin ev \<in> fst ` set (history_cache s)
      \<longrightarrow> fst (clear_history env cfg ev s) = HistoryCleared
          \<and> unified_msg_origin ev \<notin> fst ` set (history_cache (snd (clear_history env cfg ev s)))
          \<and> cache_get (history_cache (snd (clear_history env cfg ev s))) (unified_msg_origin ev) = []
          \<and> fst (view_history env ev (snd (clear_history env cfg ev s))) = NoHistoryToView
          \<and> snd (clear_history env cfg ev s)
              = save_history env cfg
                  (log_action (CacheDelete (unified_msg_origin ev))
                     (log_action (CacheContains (unified_msg_origin ev)) s
                        \<lparr>history_cache := AList.delete (unified_msg_origin ev) (history_cache s)\<rparr>))
          \<and> trace (snd (clear_history env cfg ev s))
              = trace s @ [CacheContains (unified_msg_origin ev), CacheDelete (unified_msg_origin ev),
                           Acquire, CacheTrim, FileWrite, Release]
          \<and> (write_result env = WriteOk
               \<longrightarrow> history_file (snd (clear_history env cfg ev s))
                     = Some (json_dumps env (history_cache (snd (clear_history env cfg ev s))))))"
  by (auto simp: clear_history_def Let_def save_history_simps fst_set_trim_all keys_delete
      cache_get_trim_all cache_get_delete view_history_def slice_from_def)

theorem clear_history_witness:
  "clear_history (ex_env [] 0) ex_config ex_event (init_store None)
     = (NothingToClear, log_action (CacheContains ''aiocqhttp:GroupMessage:group1'') (init_store None))
   \<and> fst (clear_history (ex_env [] 0) ex_config ex_event
         \<lparr>history_cache = ex_history, history_file = None, trace = []\<rparr>) = HistoryCleared
   \<and> history_cache (snd (clear_history (ex_env [] 0) ex_config ex_event
         \<lparr>history_cache = ex_history, history_file = None, trace = []\<rparr>)) = []
   \<and> history_file (snd (clear_history (ex_env [] 0) ex_config ex_event
         \<lparr>history_cache = ex_history, history_file = None, trace = []\<rparr>)) = Some ''{}''
   \<and> fst (view_history (ex_env [] 0) ex_event (snd (clear_history (ex_env [] 0) ex_config ex_event
         \<lparr>history_cache = ex_history, history_file = None, trace = []\<rparr>))) = NoHistoryToView"
proof -
  let ?s = "\<lparr>history_cache = ex_history, history_file = None, trace = []\<rparr>"
  have a: "unified_msg_origin ex_event \<notin> fst ` set (history_cache (init_store None))"
    by (simp add: init_store_def)
  have b: "unified_msg_origin ex_event \<in> fst ` set (history_cache ?s)"
    by (simp add: ex_event_def ex_history_def)
  have w: "write_result (ex_env [] 0) = WriteOk"
    by (simp add: ex_env_def)
  from clear_history_reports_and_deletes [of ex_event "init_store None" "ex_env [] 0" ex_config]
    clear_history_reports_and_deletes [of ex_event ?s "ex_env [] 0" ex_config] a b w
  show ?thesis
    by (simp add: ex_defs model_defs clear_history_def view_history_def)
qed

section \<open>Empty prompts\<close>

text \<open>
  C10. For a message that passed the gates and whose request has no prompt or an empty
  one, the user's turn holds the fixed placeholder text, after the direct-mention marker
  when the message woke the bot; this turn is what is appended to the session's log; the
  classifier's prompt presents it, formatted as a user turn, as the current message; and
  the cache the handler leaves is the cache with this turn appended, trimmed by
  \<^verbatim>\<open>_save_history\<close> on the paths that stop the event, so that for a positive
  \<^verbatim>\<open>history_max_length\<close> the last turn of the session in it is the placeholder turn.
\<close>

theorem empty_prompt_recorded_as_placeholder:
  assumes "gates env cfg ev = Some text_chat"
    and "prompt rq = None \<or> prompt rq = Some []"
  shows "user_history_entry ev rq
           = User (sender_id ev) (sender_name ev)
               ((if is_at_or_wake_command ev then ''[Direct Mention] '' else [])
                @ ''User sent an empty or non-text message.'')
     \<and> cache_get (history_cache (append_user_turn ev rq s)) (unified_msg_origin ev)
           = cache_get (history_cache s) (unified_msg_origin ev)
             @ [User (sender_id ev) (sender_name ev)
                 ((if is_at_or_wake_command ev then ''[Direct Mention] '' else [])
                  @ ''User sent an empty or non-text message.'')]
     \<and> (\<exists>rest. trace (fst (interest_analyzer env cfg ev rq s))
           = trace s @ [CacheAppend (unified_msg_origin ev), CacheRead (unified_msg_origin ev)]
             @ (case analysis_system_prompt cfg of
                  None \<Rightarrow> []
                | Some template \<Rightarrow>
                    TextChat (render_prompt template (awakening_context_str ev)
                      (persona_description env rq)
                      (formatted_history (cache_get (history_cache s) (unified_msg_origin ev)))
                      (''user ('' @ sender_name ev @ ''/'' @ sender_id ev @ ''): ''
                       @ (if is_at_or_wake_command ev then ''[Direct Mention] '' else [])
                       @ ''User sent an empty or non-text message.'')) # rest))
     \<and> (history_cache (fst (interest_analyzer env cfg ev rq s))
           = cache_append (unified_msg_origin ev)
               (User (sender_id ev) (sender_name ev)
                 ((if is_at_or_wake_command ev then ''[Direct Mention] '' else [])
                  @ ''User sent an empty or non-text message.''))
               (history_cache s)
         \<or> history_cache (fst (interest_analyzer env cfg ev rq s))
           = trim_all (max_len cfg)
               (cache_append (unified_msg_origin ev)
                 (User (sender_id ev) (sender_name ev)
                   ((if is_at_or_wake_command ev then ''[Direct Mention] '' else [])
                    @ ''User sent an empty or non-text message.''))
                 (history_cache s)))
     \<and> (0 < max_len cfg \<longrightarrow>
          cache_get (history_cache (fst (interest_analyzer env cfg ev rq s))) (unified_msg_origin ev)
            \<noteq> []
          \<and> last (cache_get (history_cache (fst (interest_analyzer env cfg ev rq s)))
                    (unified_msg_origin ev))
            = User (sender_id ev) (sender_name ev)
                ((if is_at_or_wake_command ev then ''[Direct Mention] '' else [])
                 @ ''User sent an empty or non-text message.''))"
proof -
  have e: "user_history_entry ev rq
           = User (sender_id ev) (sender_name ev)
               ((if is_at_or_wake_command ev then ''[Direct Mention] '' else [])
                @ ''User sent an empty or non-text message.'')"
    using assms(2)
    by (auto simp: user_history_entry_def current_message_def placeholder_def py_or_def)
  have i: "interest_analyzer env cfg ev rq s = analyze env cfg text_chat ev rq s"
    using assms(1) by (simp add: interest_analyzer_def)
  have p: "analysis_prompt env cfg ev rq (append_user_turn ev rq s)
      = (case analysis_system_prompt cfg of
           None \<Rightarrow> None
         | Some template \<Rightarrow>
             Some (render_prompt template (awakening_context_str ev)
                      (persona_description env rq)
                      (formatted_history (cache_get (history_cache s) (unified_msg_origin ev)))
                      (''user ('' @ sender_name ev @ ''/'' @ sender_id ev @ ''): ''
                       @ (if is_at_or_wake_command ev then ''[Direct Mention] '' else [])
                       @ ''User sent an empty or non-text message.'')))"
    by (simp add: analysis_prompt_def history_for_analysis_append e format_history_entry_def
        split: option.splits)
  from analyze_trace [of env cfg text_chat ev rq s] obtain rest where
    "trace (fst (analyze env cfg text_chat ev rq s))
     = trace s @ [CacheAppend (unified_msg_origin ev), CacheRead (unified_msg_origin ev)]
       @ (case analysis_prompt env cfg ev rq (append_user_turn ev rq s) of
            None \<Rightarrow> []
          | Some p \<Rightarrow> TextChat p # rest)"
    by blast
  then have "trace (fst (interest_analyzer env cfg ev rq s))
           = trace s @ [CacheAppend (unified_msg_origin ev), CacheRead (unified_msg_origin ev)]
             @ (case analysis_system_prompt cfg of
                  None \<Rightarrow> []
                | Some template \<Rightarrow>
                    TextChat (render_prompt template (awakening_context_str ev)
                      (persona_description env rq)
                      (formatted_history (cache_get (history_cache s) (unified_msg_origin ev)))
                      (''user ('' @ sender_name ev @ ''/'' @ sender_id ev @ ''): ''
                       @ (if is_at_or_wake_command ev then ''[Direct Mention] '' else [])
                       @ ''User sent an empty or non-text message.'')) # rest)"
    unfolding i p by (simp split: option.splits)
  then have t: "\<exists>rest. trace (fst (interest_analyzer env cfg ev rq s))
           = trace s @ [CacheAppend (unified_msg_origin ev), CacheRead (unified_msg_origin ev)]
             @ (case analysis_system_prompt cfg of
                  None \<Rightarrow> []
                | Some template \<Rightarrow>
                    TextChat (render_prompt template (awakening_context_str ev)
                      (persona_description env rq)
                      (formatted_history (cache_get (history_cache s) (unified_msg_origin ev)))
                      (''user ('' @ sender_name ev @ ''/'' @ sender_id ev @ ''): ''
                       @ (if is_at_or_wake_command ev then ''[Direct Mention] '' else [])
                       @ ''User sent an empty or non-text message.'')) # rest)"
    by blast
  have c: "history_cache (fst (interest_analyzer env cfg ev rq s))
           = cache_append (unified_msg_origin ev) (user_history_entry ev rq) (history_cache s)
         \<or> history_cache (fst (interest_analyzer env cfg ev rq s))
           = trim_all (max_len cfg)
               (cache_append (unified_msg_origin ev) (user_history_entry ev rq) (history_cache s))"
    unfolding i by (rule analyze_cache)
  have l: "0 < max_len cfg \<longrightarrow>
          cache_get (history_cache (fst (interest_analyzer env cfg ev rq s))) (unified_msg_origin ev)
            \<noteq> []
          \<and> last (cache_get (history_cache (fst (interest_analyzer env cfg ev rq s)))
                    (unified_msg_origin ev))
            = user_history_entry ev rq"
    unfolding i using analyze_last_turn [of cfg env text_chat ev rq s] by blast
  have a: "cache_get (history_cache (append_user_turn ev rq s)) (unified_msg_origin ev)
           = cache_get (history_cache s) (unified_msg_origin ev) @ [user_history_entry ev rq]"
    by (simp add: cache_get_append_same)
  from e t c l a show ?thesis
    unfolding e by blast
qed

theorem empty_prompt_witness:
  "(prompt (ex_req\<lparr>prompt := None\<rparr>) = None \<or> prompt (ex_req\<lparr>prompt := None\<rparr>) = Some [])
   \<and> cache_get (history_cache (append_user_turn (ex_event\<lparr>is_at_or_wake_command := True\<rparr>)
         (ex_req\<lparr>prompt := None\<rparr>)
         \<lparr>history_cache = ex_history, history_file = None, trace = []\<rparr>))
       ''aiocqhttp:GroupMessage:group1''
     = [User ''42'' ''Ann'' ''hi'',
        User ''42'' ''Ann'' ''[Direct Mention] User sent an empty or non-text message.'']
   \<and> (\<exists>rest. trace (fst (interest_analyzer (ex_env ''no json here'' 0) ex_config
         (ex_event\<lparr>is_at_or_wake_command := True\<rparr>) (ex_req\<lparr>prompt := None\<rparr>)
         \<lparr>history_cache = ex_history, history_file = None, trace = []\<rparr>))
       = [CacheAppend ''aiocqhttp:GroupMessage:group1'',
          CacheRead ''aiocqhttp:GroupMessage:group1'',
          TextChat (''IMPORTANT CONTEXT: The user has directly awakened you...''
            @ ''|You are a cat.|user (Ann/42): hi''
            @ ''|user (Ann/42): [Direct Mention] User sent an empty or non-text message.'')]
         @ rest)
   \<and> last (cache_get (history_cache (fst (interest_analyzer (ex_env ''no json here'' 0) ex_config
         (ex_event\<lparr>is_at_or_wake_command := True\<rparr>) (ex_req\<lparr>prompt := None\<rparr>)
         \<lparr>history_cache = ex_history, history_file = None, trace = []\<rparr>)))
       ''aiocqhttp:GroupMessage:group1'')
     = User ''42'' ''Ann'' ''[Direct Mention] User sent an empty or non-text message.''"
proof -
  let ?ev = "ex_event\<lparr>is_at_or_wake_command := True\<rparr>"
  let ?rq = "ex_req\<lparr>prompt := None\<rparr>"
  let ?s = "\<lparr>history_cache = ex_history, history_file = None, trace = []\<rparr>"
  have g: "gates (ex_env ''no json here'' 0) ex_config ?ev = Some (\<lambda>p. Some ''no json here'')"
    by (simp add: ex_defs model_defs)
  have p: "prompt ?rq = None \<or> prompt ?rq = Some []"
    by simp
  have m: "0 < max_len ex_config"
    by (simp add: max_len_def ex_config_def)
  from empty_prompt_recorded_as_placeholder [OF g p, of ?s] p m
  show ?thesis
    by (auto simp: ex_defs model_defs)
qed

section \<open>Further properties of the pipeline\<close>

text \<open>
  Ordering. Appending a sequence of turns to a session, one after the other, and reading
  the session's log gives the log as it was followed by the turns in the order they were
  appended; for a session without a log, exactly the turns.
\<close>

theorem appends_read_back_in_order:
  "cache_get (foldl (\<lambda>h t. cache_append sid t h) h ts) sid = cache_get h sid @ ts
   \<and> (sid \<notin> fst ` set h \<longrightarrow> cache_get (foldl (\<lambda>h t. cache_append sid t h) h ts) sid = ts)"
proof -
  have a: "cache_get (foldl (\<lambda>h t. cache_append sid t h) h ts) sid = cache_get h sid @ ts"
    by (induction ts arbitrary: h) (simp_all add: cache_get_append_same)
  have "sid \<notin> fst ` set h \<Longrightarrow> cache_get h sid = []"
    using map_of_eq_None_iff [of h sid] by (simp add: cache_get_def)
  with a show ?thesis by simp
qed

theorem appends_read_back_witness:
  "cache_get (foldl (\<lambda>h t. cache_append ''s'' t h) []
      [User ''1'' ''A'' ''x'', Assistant ''y'' None, User ''1'' ''A'' ''z'']) ''s''
     = [User ''1'' ''A'' ''x'', Assistant ''y'' None, User ''1'' ''A'' ''z'']"
  using appends_read_back_in_order [of "''s''" "[]"
      "[User ''1'' ''A'' ''x'', Assistant ''y'' None, User ''1'' ''A'' ''z'']"]
  by (simp add: cache_get_def)

text \<open>
  Step 9. When the verdict's \<^verbatim>\<open>should_reply\<close> is falsy the handler stops the event, leaves
  the request as it was and persists: the cache is the trimmed cache with the user's turn,
  and a successful write leaves its serialisation in the file.
\<close>

theorem declined_reply_stops_and_persists:
  assumes "gates env cfg ev = Some text_chat"
    and "analysis_prompt env cfg ev rq (append_user_turn ev rq s) = Some p"
    and "text_chat p = Some response_text"
    and "parse_verdict env response_text = Some d"
    and "\<not> truthy (dict_get d ''should_reply'' (PBool True))"
  shows "stopped (fst (snd (interest_analyzer env cfg ev rq s)))
     \<and> snd (snd (interest_analyzer env cfg ev rq s)) = rq
     \<and> history_cache (fst (interest_analyzer env cfg ev rq s))
         = trim_all (max_len cfg)
             (cache_append (unified_msg_origin ev) (user_history_entry ev rq) (history_cache s))
     \<and> (write_result env = WriteOk
          \<longrightarrow> history_file (fst (interest_analyzer env cfg ev rq s))
                = Some (json_dumps env (history_cache (fst (interest_analyzer env cfg ev rq s)))))"
  using assms(5)
  by (simp add: interest_analyzer_verdict [OF assms(1-4)] apply_verdict_def save_history_simps)

theorem declined_reply_witness:
  "parse_verdict (ex_env ex_decline_text 0) ex_decline_text
     = Some [(''should_reply'', PBool False), (''reason'', PStr ''busy'')]
   \<and> stopped (fst (snd (interest_analyzer (ex_env ex_decline_text 0) ex_config ex_event ex_req
         (init_store None))))
   \<and> history_file (fst (interest_analyzer (ex_env ex_decline_text 0) ex_config ex_event ex_req
         (init_store None)))
       = Some (py_json_dumps [(''aiocqhttp:GroupMessage:group1'', [User ''42'' ''Ann'' ''hello''])])"
proof -
  let ?env = "ex_env ex_decline_text 0"
  let ?d = "[(''should_reply'', PBool False), (''reason'', PStr ''busy'')]"
  have g: "gates ?env ex_config ex_event = Some (\<lambda>p. Some ex_decline_text)"
    by (simp add: ex_defs model_defs)
  have p: "analysis_prompt ?env ex_config ex_event ex_req
       (append_user_turn ex_event ex_req (init_store None))
     = Some ''|You are a cat.|No previous conversation history.|user (Ann/42): hello''"
    by (simp add: ex_defs model_defs)
  have v: "parse_verdict ?env ex_decline_text = Some ?d"
    by (simp add: ex_defs model_defs)
  have t: "\<not> truthy (dict_get ?d ''should_reply'' (PBool True))"
    by (simp add: dict_get_def)
  have w: "write_result ?env = WriteOk" and j: "json_dumps ?env = py_json_dumps"
    by (simp_all add: ex_env_def)
  have c: "trim_all (max_len ex_config)
      (cache_append (unified_msg_origin ex_event) (user_history_entry ex_event ex_req)
         (history_cache (init_store None)))
     = [(''aiocqhttp:GroupMessage:group1'', [User ''42'' ''Ann'' ''hello''])]"
    by (simp add: ex_defs model_defs)
  from declined_reply_stops_and_persists [OF g p refl v t] v w
  show ?thesis
    unfolding c j by simp
qed

text \<open>
  ReplyRecorder. For an allow-listed subject and a non-empty reply, the hook appends an
  assistant turn with the reply's text, carrying the state stored on the event when
  emotion recording is configured, and then persists.
\<close>

theorem reply_recorded_and_persisted:
  assumes "subject_id ev \<in> set (whitelist_of cfg)" and "completion_text \<noteq> []"
  shows "history_cache (save_llm_reply_to_history env cfg ev completion_text s)
           = trim_all (max_len cfg)
               (cache_append (unified_msg_origin ev)
                  (Assistant completion_text
                     (if record_emotion_in_history cfg = Some True then pic_emotion_data ev
                      else None))
                  (history_cache s))
     \<and> trace (save_llm_reply_to_history env cfg ev completion_text s)
           = trace s @ [CacheAppend (unified_msg_origin ev), Acquire, CacheTrim, FileWrite, Release]
     \<and> (write_result env = WriteOk
          \<longrightarrow> history_file (save_llm_reply_to_history env cfg ev completion_text s)
                = Some (json_dumps env
                     (history_cache (save_llm_reply_to_history env cfg ev completion_text s))))"
  using assms
  by (auto simp: save_llm_reply_to_history_def Let_def save_history_simps split: option.splits)

theorem reply_recorded_witness:
  "history_cache (save_llm_reply_to_history (ex_env [] 0)
       (ex_config\<lparr>record_emotion_in_history := Some True\<rparr>)
       (ex_event\<lparr>pic_emotion_data := Some (PStr ''high'', PStr ''curious'')\<rparr>) ''meow''
       \<lparr>history_cache = ex_history, history_file = None, trace = []\<rparr>)
     = [(''aiocqhttp:GroupMessage:group1'',
         [User ''42'' ''Ann'' ''hi'', Assistant ''meow'' (Some (PStr ''high'', PStr ''curious''))])]"
proof -
  let ?cfg = "ex_config\<lparr>record_emotion_in_history := Some True\<rparr>"
  let ?ev = "ex_event\<lparr>pic_emotion_data := Some (PStr ''high'', PStr ''curious'')\<rparr>"
  have a: "subject_id ?ev \<in> set (whitelist_of ?cfg)"
    by (simp add: ex_defs model_defs)
  have b: "''meow'' \<noteq> []" by simp
  from reply_recorded_and_persisted [OF a b, of "ex_env [] 0"
      "\<lparr>history_cache = ex_history, history_file = None, trace = []\<rparr>"]
  show ?thesis
    by (simp add: ex_defs model_defs)
qed

text \<open>
  The end-to-end scenario: an allow-listed session without history, the message
  \<^verbatim>\<open>hello\<close>, a classifier answering with interest \<^verbatim>\<open>high\<close> and feeling \<^verbatim>\<open>curious\<close>, the
  default reply chance. The request's prompt becomes the user's message followed by the
  note; after the reply \<^verbatim>\<open>meow\<close>, with emotion recording on, the log holds the user's turn
  and the assistant's turn with that state.
\<close>

theorem end_to_end_scenario:
  "interest_analyzer (ex_env ex_verdict_text 0) (ex_config\<lparr>record_emotion_in_history := Some True\<rparr>)
       ex_event ex_req (init_store None)
     = (\<lparr>history_cache = [(''aiocqhttp:GroupMessage:group1'', [User ''42'' ''Ann'' ''hello''])],
         history_file = None,
         trace = [CacheAppend ''aiocqhttp:GroupMessage:group1'',
                  CacheRead ''aiocqhttp:GroupMessage:group1'',
                  TextChat ''|You are a cat.|No previous conversation history.|user (Ann/42): hello'']\<rparr>,
        ex_event\<lparr>pic_emotion_data := Some (PStr ''high'', PStr ''curious'')\<rparr>,
        ex_req\<lparr>prompt := Some (''User's message is: '' @ [CHR 0x22] @ ''hello''
           @ [CHR 0x22, CHR 0x0A, CHR 0x0A]
           @ ''[[System Note: Your current state is - Interest: '' @ [CHR 0x27] @ ''high''
           @ [CHR 0x27] @ '', Feeling: '' @ [CHR 0x27] @ ''curious'' @ [CHR 0x27]
           @ ''. You MUST respond according to this state.]]'')\<rparr>)
   \<and> history_cache (save_llm_reply_to_history (ex_env ex_verdict_text 0)
         (ex_config\<lparr>record_emotion_in_history := Some True\<rparr>)
         (fst (snd (interest_analyzer (ex_env ex_verdict_text 0)
            (ex_config\<lparr>record_emotion_in_history := Some True\<rparr>) ex_event ex_req
            (init_store None))))
         ''meow''
         (fst (interest_analyzer (ex_env ex_verdict_text 0)
            (ex_config\<lparr>record_emotion_in_history := Some True\<rparr>) ex_event ex_req
            (init_store None))))
     = [(''aiocqhttp:GroupMessage:group1'',
         [User ''42'' ''Ann'' ''hello'',
          Assistant ''meow'' (Some (PStr ''high'', PStr ''curious''))])]"
  by (simp add: ex_defs model_defs save_llm_reply_to_history_def)

end
